theory Spec2Isabelle
  imports Complex_Main "HOL-Library.Word"
begin

section \<open>The sidecar bridge of the OmniAgentPay JS SDK\<close>

text \<open>
  The class \<open>Bridge\<close> controls a worker process (the sidecar) over its standard input and
  output with newline-delimited JSON-RPC messages. This theory embeds the class: its
  fields as a record, each method and each event handler as a function that takes the
  bridge and returns the effects it performs together with the updated bridge.

  What the class takes from the JavaScript platform is modelled beside it: strings as
  lists of UTF-16 code units, \<open>Buffer.toString\<close> as the UTF-8 decoder of the Encoding
  Standard, \<open>String.prototype.split\<close>, \<open>trim\<close> and \<open>startsWith\<close>, \<open>JSON.stringify\<close>,
  the conversion \<open>ToString\<close> that \<open>new Error\<close> applies to its argument, and \<open>Map\<close>.
  \<open>JSON.parse\<close>, the digits of a number that is not a small integer, the file system,
  the two resolved candidate paths and what \<open>spawn\<close> throws are parameters of the
  environment.
\<close>

subsection \<open>Strings\<close>

text \<open>
  A JavaScript string is a sequence of UTF-16 code units. \<open>js\<close> reads an ASCII literal
  as such a sequence.
\<close>

type_synonym jsstring = "nat list"

definition js :: "string \<Rightarrow> jsstring" where
  "js s = map of_char s"

text \<open>\<open>s.split('\n')\<close>: the segments between line feeds; never an empty array.\<close>

fun split_nl :: "jsstring \<Rightarrow> jsstring list" where
  "split_nl [] = [[]]"
| "split_nl (c # cs) =
     (if c = 10 then [] # split_nl cs
      else (case split_nl cs of [] \<Rightarrow> [[c]] | l # ls \<Rightarrow> (c # l) # ls))"

text \<open>
  The code units that \<open>trim\<close> strips: the WhiteSpace and LineTerminator productions of
  ECMAScript.
\<close>

definition is_whitespace :: "nat \<Rightarrow> bool" where
  "is_whitespace c \<longleftrightarrow>
     (9 \<le> c \<and> c \<le> 13) \<or> c = 32 \<or> c = 160 \<or> c = 5760 \<or> (8192 \<le> c \<and> c \<le> 8202) \<or>
     c = 8232 \<or> c = 8233 \<or> c = 8239 \<or> c = 8287 \<or> c = 12288 \<or> c = 65279"

definition trim :: "jsstring \<Rightarrow> jsstring" where
  "trim s = rev (dropWhile is_whitespace (rev (dropWhile is_whitespace s)))"

definition startsWith :: "jsstring \<Rightarrow> jsstring \<Rightarrow> bool" where
  "startsWith s p \<longleftrightarrow> take (length p) s = p"

text \<open>\<open>xs.join(sep)\<close> on an array of strings.\<close>

fun join :: "jsstring \<Rightarrow> jsstring list \<Rightarrow> jsstring" where
  "join sep [] = []"
| "join sep [x] = x"
| "join sep (x # y # ys) = x @ sep @ join sep (y # ys)"

text \<open>The decimal digits of a natural number and of an integer, as \<open>String(n)\<close> prints them.\<close>

fun decimal :: "nat \<Rightarrow> jsstring" where
  "decimal n = (if n < 10 then [48 + n] else decimal (n div 10) @ [48 + n mod 10])"

declare decimal.simps [simp del]

definition show_int :: "int \<Rightarrow> jsstring" where
  "show_int i = (if i < 0 then 45 # decimal (nat (- i)) else decimal (nat i))"

subsection \<open>Decoding a chunk: \<open>Buffer.toString()\<close>\<close>

text \<open>
  \<open>data.toString()\<close> decodes the bytes of one chunk as UTF-8, on its own: every
  ill-formed or truncated sequence becomes U+FFFD. The decoder is the one of the Encoding
  Standard, with its state (code point, bytes needed, bytes seen, lower and upper
  boundary of the next continuation byte).
\<close>

datatype utf8_state =
  Utf8State (code_point: nat) (bytes_needed: nat) (bytes_seen: nat)
            (lower_boundary: nat) (upper_boundary: nat)

definition utf8_init :: utf8_state where
  "utf8_init = Utf8State 0 0 0 128 191"

text \<open>A byte read while no sequence is open.\<close>

definition utf8_lead :: "nat \<Rightarrow> nat list \<times> utf8_state" where
  "utf8_lead b =
     (if b \<le> 127 then ([b], utf8_init)
      else if 194 \<le> b \<and> b \<le> 223 then ([], Utf8State (b mod 32) 1 0 128 191)
      else if 224 \<le> b \<and> b \<le> 239 then
        ([], Utf8State (b mod 16) 2 0 (if b = 224 then 160 else 128) (if b = 237 then 159 else 191))
      else if 240 \<le> b \<and> b \<le> 244 then
        ([], Utf8State (b mod 8) 3 0 (if b = 240 then 144 else 128) (if b = 244 then 143 else 191))
      else ([65533], utf8_init))"

fun utf8_decode :: "utf8_state \<Rightarrow> nat list \<Rightarrow> nat list" where
  "utf8_decode s [] = (if bytes_needed s \<noteq> 0 then [65533] else [])"
| "utf8_decode s (b # bs) =
     (if bytes_needed s = 0 then
        (case utf8_lead b of (out, s') \<Rightarrow> out @ utf8_decode s' bs)
      else if b < lower_boundary s \<or> upper_boundary s < b then
        (case utf8_lead b of (out, s') \<Rightarrow> 65533 # out @ utf8_decode s' bs)
      else
        (let c = code_point s * 64 + b mod 64; n = bytes_seen s + 1
         in if n = bytes_needed s then c # utf8_decode utf8_init bs
            else utf8_decode (Utf8State c (bytes_needed s) n 128 191) bs))"

text \<open>A code point as UTF-16 code units: a surrogate pair above the basic plane.\<close>

definition utf16_units :: "nat \<Rightarrow> jsstring" where
  "utf16_units c =
     (if c < 65536 then [c]
      else [55296 + (c - 65536) div 1024, 56320 + (c - 65536) mod 1024])"

definition toString :: "8 word list \<Rightarrow> jsstring" where
  "toString data = concat (map utf16_units (utf8_decode utf8_init (map unat data)))"

subsection \<open>JSON values\<close>

text \<open>
  A JavaScript number is a finite double, an infinity or NaN. A finite double is the
  rational it stands for; minus zero is zero, from which nothing the bridge does tells
  it apart.
\<close>

datatype number = Finite rat | PlusInfinity | MinusInfinity | NaN

text \<open>
  The values that \<open>JSON.parse\<close> returns and \<open>JSON.stringify\<close> prints. An object lists its
  own properties in enumeration order, each key once. \<open>undefined\<close> (an absent
  property) is \<open>None\<close> of \<open>json option\<close>.
\<close>

datatype json =
  JNull
| JBool bool
| JNum number
| JStr jsstring
| JArr "json list"
| JObj "(jsstring \<times> json) list"

text \<open>\<open>Boolean(v)\<close>, as the condition of an \<open>if\<close> takes it.\<close>

fun truthy :: "json option \<Rightarrow> bool" where
  "truthy None = False"
| "truthy (Some JNull) = False"
| "truthy (Some (JBool t)) = t"
| "truthy (Some (JNum (Finite q))) = (q \<noteq> 0)"
| "truthy (Some (JNum PlusInfinity)) = True"
| "truthy (Some (JNum MinusInfinity)) = True"
| "truthy (Some (JNum NaN)) = False"
| "truthy (Some (JStr s)) = (s \<noteq> [])"
| "truthy (Some (JArr xs)) = True"
| "truthy (Some (JObj kvs)) = True"

text \<open>
  Reading a property of a parsed value. The bridge reads \<open>id\<close>, \<open>result\<close>, \<open>error\<close> and
  \<open>message\<close> only, names that no prototype defines, so a property is there exactly when
  the value is an object that has it as its own.
\<close>

fun get_prop :: "json \<Rightarrow> jsstring \<Rightarrow> json option" where
  "get_prop (JObj kvs) k = map_of kvs k"
| "get_prop v k = None"

text \<open>
  \<open>JSON.stringify\<close> of a string: quotation marks, reverse solidus and control characters
  escaped, a surrogate without its partner written as an escape.
\<close>

definition hex_digit :: "nat \<Rightarrow> nat" where
  "hex_digit d = (if d < 10 then 48 + d else 87 + d)"

definition unicode_escape :: "nat \<Rightarrow> jsstring" where
  "unicode_escape c =
     [92, 117, hex_digit (c div 4096 mod 16), hex_digit (c div 256 mod 16),
      hex_digit (c div 16 mod 16), hex_digit (c mod 16)]"

definition quote_unit :: "nat \<Rightarrow> jsstring" where
  "quote_unit c =
     (if c = 8 then [92, 98]
      else if c = 9 then [92, 116]
      else if c = 10 then [92, 110]
      else if c = 12 then [92, 102]
      else if c = 13 then [92, 114]
      else if c = 34 then [92, 34]
      else if c = 92 then [92, 92]
      else if c < 32 then unicode_escape c
      else [c])"

definition is_high_surrogate :: "nat \<Rightarrow> bool" where
  "is_high_surrogate c \<longleftrightarrow> 55296 \<le> c \<and> c \<le> 56319"

definition is_low_surrogate :: "nat \<Rightarrow> bool" where
  "is_low_surrogate c \<longleftrightarrow> 56320 \<le> c \<and> c \<le> 57343"

fun quote_units :: "jsstring \<Rightarrow> jsstring" where
  "quote_units [] = []"
| "quote_units [c] =
     (if is_high_surrogate c \<or> is_low_surrogate c then unicode_escape c else quote_unit c)"
| "quote_units (c # d # ds) =
     (if is_high_surrogate c then
        (if is_low_surrogate d then c # d # quote_units ds
         else unicode_escape c @ quote_units (d # ds))
      else if is_low_surrogate c then unicode_escape c @ quote_units (d # ds)
      else quote_unit c @ quote_units (d # ds))"

definition quote :: "jsstring \<Rightarrow> jsstring" where
  "quote s = 34 # quote_units s @ [34]"

subsection \<open>The environment\<close>

text \<open>
  The characters of which \<open>Number::toString\<close> makes its result for a finite number.
\<close>

datatype numchar = NumDigit nat | NumPoint | NumExponent | NumPlus | NumMinus

definition numchar_unit :: "numchar \<Rightarrow> nat" where
  "numchar_unit c =
     (case c of NumDigit d \<Rightarrow> 48 + d mod 10 | NumPoint \<Rightarrow> 46 | NumExponent \<Rightarrow> 101
      | NumPlus \<Rightarrow> 43 | NumMinus \<Rightarrow> 45)"

text \<open>What a method throws and what a promise is rejected with.\<close>

datatype js_error = Error jsstring | TypeError

text \<open>
  The environment of a bridge:
  \<^item> the two candidate paths that \<open>path.resolve\<close> computes from the directory of the
    module, and the files that \<open>fs.existsSync\<close> finds;
  \<^item> what \<open>child_process.spawn\<close> throws for an executable, if it throws: it does for a
    path with a NUL character and for the errors of the system that it does not report
    with an \<open>error\<close> event;
  \<^item> \<open>JSON.parse\<close>, which returns a value or throws a SyntaxError (\<open>None\<close>);
  \<^item> \<open>Number::toString\<close> for the finite numbers that are not integers below
    \<open>10 ^ 21\<close> in magnitude: the shortest digits that read back as the number, with a
    point or an exponent.
\<close>

record env =
  devPath :: jsstring
  prodPath :: jsstring
  files :: "jsstring list"
  spawn_throws :: "jsstring \<Rightarrow> js_error option"
  JSON_parse :: "jsstring \<Rightarrow> json option"
  Number_toString :: "rat \<Rightarrow> numchar list"

text \<open>
  \<open>Number::toString\<close> of a finite number: an integer below \<open>10 ^ 21\<close> in magnitude is
  printed in decimal digits, any other number as the environment says.
\<close>

definition number_text :: "env \<Rightarrow> rat \<Rightarrow> jsstring" where
  "number_text e q =
     (if q = of_int \<lfloor>q\<rfloor> \<and> \<bar>q\<bar> < 10 ^ 21 then show_int \<lfloor>q\<rfloor>
      else map numchar_unit (Number_toString e q))"

text \<open>
  \<open>JSON.stringify\<close> of an object whose property values are serialized already, and
  \<open>JSON.stringify(v)\<close> of a value, with no indentation. A number that is not finite is
  printed \<open>null\<close>.
\<close>

definition stringify_object :: "(jsstring \<times> jsstring) list \<Rightarrow> jsstring" where
  "stringify_object props =
     123 # join [44] (map (\<lambda>kv. quote (fst kv) @ 58 # snd kv) props) @ [125]"

fun stringify :: "env \<Rightarrow> json \<Rightarrow> jsstring" where
  "stringify e JNull = js ''null''"
| "stringify e (JBool t) = (if t then js ''true'' else js ''false'')"
| "stringify e (JNum n) = (case n of Finite q \<Rightarrow> number_text e q | _ \<Rightarrow> js ''null'')"
| "stringify e (JStr s) = quote s"
| "stringify e (JArr xs) = 91 # join [44] (map (stringify e) xs) @ [93]"
| "stringify e (JObj kvs) =
     stringify_object (map (\<lambda>kv. (fst kv, stringify e (snd kv))) kvs)"

text \<open>
  \<open>ToString(v)\<close>, which \<open>new Error(v)\<close> applies to a message that is not undefined. An
  array joins its elements with commas, \<open>null\<close> elements as the empty string. An object
  is \<open>[object Object]\<close>, unless it has a property \<open>toString\<close> of its own: a parsed value is
  never callable, so the conversion finds no method that returns a primitive and throws a
  TypeError (\<open>None\<close>).
\<close>

fun to_string :: "env \<Rightarrow> json \<Rightarrow> jsstring option" where
  "to_string e JNull = Some (js ''null'')"
| "to_string e (JBool t) = Some (if t then js ''true'' else js ''false'')"
| "to_string e (JNum n) =
     Some (case n of Finite q \<Rightarrow> number_text e q | PlusInfinity \<Rightarrow> js ''Infinity''
           | MinusInfinity \<Rightarrow> js ''-Infinity'' | NaN \<Rightarrow> js ''NaN'')"
| "to_string e (JStr s) = Some s"
| "to_string e (JArr xs) =
     (let parts = map (\<lambda>x. if x = JNull then Some [] else to_string e x) xs
      in if None \<in> set parts then None else Some (join [44] (map the parts)))"
| "to_string e (JObj kvs) =
     (if js ''toString'' \<in> fst ` set kvs then None else Some (js ''[object Object]''))"

text \<open>
  An argument of type \<open>any\<close>: \<open>undefined\<close>, a JSON value, or any other value of
  JavaScript (a function, a symbol, a BigInt, an object with a cycle or with a method
  \<open>toJSON\<close>, a value with one of these inside). Such a value is given by what
  \<open>JSON.stringify\<close> makes of it as the value of a property: it throws, it leaves the
  property out, or it prints a text.
\<close>

datatype jsvalue = Undefined | Json json | Other "js_error + jsstring option"

subsection \<open>The bridge\<close>

text \<open>
  The worker that \<open>spawn\<close> returns, named by the executable it runs, and the promise that
  \<open>send\<close> returns, named by the id under which its \<open>resolve\<close> and \<open>reject\<close> are stored.
\<close>

datatype child_process = ChildProcess jsstring

datatype promise = Promise nat

text \<open>
  The fields of the class. \<open>requestId\<close> is a JavaScript number that only counts up from
  zero by one; it is a natural number here, which is exact below \<open>2 ^ 53\<close>. The keys of
  \<open>pendingRequests\<close> are the values that \<open>requestId\<close> has taken. Of what the class
  inherits from \<open>EventEmitter\<close>, the number of listeners for its \<open>error\<close> event.
\<close>

record bridge =
  binaryPath :: "jsstring option"
  child :: "child_process option"
  requestId :: nat
  pendingRequests :: "nat \<rightharpoonup> promise"
  buffer :: jsstring
  errorListeners :: nat

definition new_Bridge :: "jsstring option \<Rightarrow> bridge" where
  "new_Bridge bp =
     \<lparr>binaryPath = bp, child = None, requestId = 0, pendingRequests = Map.empty, buffer = [],
      errorListeners = 0\<rparr>"

text \<open>What a method does to the world outside the fields, in the order it does it.\<close>

datatype effect =
  ConsoleLog jsstring
| ConsoleWarn jsstring
| ConsoleError "jsstring list"
| Spawn jsstring
| StdinWrite child_process jsstring
| Kill child_process
| EmitError jsstring
| EmitExit "int option"
| Resolve promise "json option"
| Reject promise js_error

text \<open>
  \<open>getBinaryPath\<close>. The path given to the constructor is taken when it is truthy: a
  string that is not empty.
\<close>

definition getBinaryPath :: "env \<Rightarrow> bridge \<Rightarrow> js_error + jsstring" where
  "getBinaryPath e b =
     (case binaryPath b of
        Some (c # cs) \<Rightarrow> Inr (c # cs)
      | _ \<Rightarrow>
          if devPath e \<in> set (files e) then Inr (devPath e)
          else if prodPath e \<in> set (files e) then Inr (prodPath e)
          else Inl (Error (js ''Could not locate omniagentpay-server binary. Tries:'' @
                           [10] @ devPath e @ [10] @ prodPath e)))"

text \<open>
  \<open>start\<close>, with what it throws if it throws: the error of \<open>getBinaryPath\<close>, before
  anything is done, or what \<open>spawn\<close> throws, after the line is logged and with the
  handle as it was.
\<close>

definition start :: "env \<Rightarrow> bridge \<Rightarrow> js_error option \<times> effect list \<times> bridge" where
  "start e b =
     (case getBinaryPath e b of
        Inl err \<Rightarrow> (Some err, [], b)
      | Inr binPath \<Rightarrow>
          (case spawn_throws e binPath of
             Some err \<Rightarrow>
               (Some err, [ConsoleLog (js ''[OmniAgentPay] Spawning sidecar: '' @ binPath)], b)
           | None \<Rightarrow>
               (None,
                [ConsoleLog (js ''[OmniAgentPay] Spawning sidecar: '' @ binPath), Spawn binPath],
                b\<lparr>child := Some (ChildProcess binPath)\<rparr>)))"

text \<open>
  The listeners that \<open>start\<close> attaches to the worker: \<open>error\<close> and \<open>exit\<close>. An event that
  the bridge emits is an effect; what its listeners do is not the bridge's. With no
  listener for it, \<open>emit('error', err)\<close> throws \<open>err\<close>.
\<close>

definition on_error :: "bridge \<Rightarrow> jsstring \<Rightarrow> js_error option \<times> effect list \<times> bridge" where
  "on_error b err =
     (if errorListeners b = 0 then
        (Some (Error err), [ConsoleError [js ''[OmniAgentPay] Sidecar error:'', err]], b)
      else (None, [ConsoleError [js ''[OmniAgentPay] Sidecar error:'', err], EmitError err], b))"

definition on_exit :: "bridge \<Rightarrow> int option \<Rightarrow> effect list \<times> bridge" where
  "on_exit b code =
     ([ConsoleWarn (js ''[OmniAgentPay] Sidecar exited with code '' @
                    (case code of None \<Rightarrow> js ''null'' | Some c \<Rightarrow> show_int c)),
       EmitExit code],
      b\<lparr>child := None\<rparr>)"

text \<open>
  \<open>new Error(message)\<close>: an undefined message leaves the message empty, any other is
  converted by \<open>ToString\<close>, which may throw.
\<close>

definition new_Error :: "env \<Rightarrow> json option \<Rightarrow> js_error + js_error" where
  "new_Error e message =
     (case message of
        None \<Rightarrow> Inr (Error [])
      | Some m \<Rightarrow> (case to_string e m of None \<Rightarrow> Inl TypeError | Some s \<Rightarrow> Inr (Error s)))"

text \<open>
  \<open>pendingRequests.get(id)\<close> and \<open>pendingRequests.delete(id)\<close> with the \<open>id\<close> of a
  response: any value, which is a key only if it is a number that \<open>requestId\<close> has taken.
\<close>

definition key_of :: "json option \<Rightarrow> nat option" where
  "key_of v =
     (case v of
        Some (JNum (Finite q)) \<Rightarrow> if q = of_int \<lfloor>q\<rfloor> \<and> 0 \<le> q then Some (nat \<lfloor>q\<rfloor>) else None
      | _ \<Rightarrow> None)"

definition map_get :: "(nat \<rightharpoonup> promise) \<Rightarrow> json option \<Rightarrow> promise option" where
  "map_get m v = (case key_of v of None \<Rightarrow> None | Some k \<Rightarrow> m k)"

definition map_delete :: "(nat \<rightharpoonup> promise) \<Rightarrow> json option \<Rightarrow> (nat \<rightharpoonup> promise)" where
  "map_delete m v = (case key_of v of None \<Rightarrow> m | Some k \<Rightarrow> m(k := None))"

text \<open>
  \<open>resolveRequest\<close>. Destructuring \<open>null\<close> throws; any other value has its three
  properties read. If \<open>new Error\<close> throws, it does so before \<open>reject\<close> and \<open>delete\<close> run.
\<close>

definition resolveRequest :: "env \<Rightarrow> bridge \<Rightarrow> json \<Rightarrow> js_error + effect list \<times> bridge" where
  "resolveRequest e b response =
     (if response = JNull then Inl TypeError
      else
        (let id = get_prop response (js ''id'');
             result = get_prop response (js ''result'');
             error = get_prop response (js ''error'')
         in case map_get (pendingRequests b) id of
              None \<Rightarrow> Inr ([], b)
            | Some request \<Rightarrow>
                if truthy error then
                  (case new_Error e (case error of None \<Rightarrow> None
                                    | Some err \<Rightarrow> get_prop err (js ''message'')) of
                     Inl thrown \<Rightarrow> Inl thrown
                   | Inr err \<Rightarrow>
                       Inr ([Reject request err],
                            b\<lparr>pendingRequests := map_delete (pendingRequests b) id\<rparr>))
                else
                  Inr ([Resolve request result],
                       b\<lparr>pendingRequests := map_delete (pendingRequests b) id\<rparr>)))"

text \<open>
  The body of the loop of \<open>handleData\<close>, for one line. \<open>try_block\<close> is its \<open>try\<close>
  statement: whatever \<open>JSON.parse\<close> or \<open>resolveRequest\<close> throws is caught and logged.
\<close>

definition try_block :: "env \<Rightarrow> bridge \<Rightarrow> jsstring \<Rightarrow> effect list \<times> bridge" where
  "try_block e b trimmed =
     (case JSON_parse e trimmed of
        None \<Rightarrow> ([ConsoleError [js ''[OmniAgentPay] Invalid JSON from sidecar:'', trimmed]], b)
      | Some response \<Rightarrow>
          (case resolveRequest e b response of
             Inl thrown \<Rightarrow>
               ([ConsoleError [js ''[OmniAgentPay] Invalid JSON from sidecar:'', trimmed]], b)
           | Inr r \<Rightarrow> r))"

definition handleLine :: "env \<Rightarrow> bridge \<Rightarrow> jsstring \<Rightarrow> effect list \<times> bridge" where
  "handleLine e b line =
     (let trimmed = trim line
      in if trimmed = [] then ([], b)
         else if \<not> startsWith trimmed [123] then
           ([ConsoleError [js ''[OmniAgentPay Sidecar Log] '' @ trimmed]], b)
         else try_block e b trimmed)"

fun handleLines :: "env \<Rightarrow> bridge \<Rightarrow> jsstring list \<Rightarrow> effect list \<times> bridge" where
  "handleLines e b [] = ([], b)"
| "handleLines e b (line # lines) =
     (case handleLine e b line of
        (out, b') \<Rightarrow> (case handleLines e b' lines of (out', b'') \<Rightarrow> (out @ out', b'')))"

text \<open>\<open>lines.pop() || ''\<close>: the last segment, the empty string if there is none.\<close>

definition pop_or_empty :: "jsstring list \<Rightarrow> jsstring" where
  "pop_or_empty lines = (if lines = [] then [] else if last lines = [] then [] else last lines)"

definition handleData :: "env \<Rightarrow> bridge \<Rightarrow> jsstring \<Rightarrow> effect list \<times> bridge" where
  "handleData e b chunk =
     (let lines = split_nl (buffer b @ chunk)
      in handleLines e (b\<lparr>buffer := pop_or_empty lines\<rparr>) (butlast lines))"

text \<open>The listener on the output of the worker: one chunk of bytes.\<close>

definition on_data :: "env \<Rightarrow> bridge \<Rightarrow> 8 word list \<Rightarrow> effect list \<times> bridge" where
  "on_data e b data = handleData e b (toString data)"

text \<open>
  \<open>JSON.stringify(request)\<close> for the request of \<open>send\<close>: the properties \<open>jsonrpc\<close>,
  \<open>method\<close>, \<open>params\<close> and \<open>id\<close> in this order, \<open>params\<close> left out when its value has no
  serialization. An omitted \<open>params\<close> is the empty object. It throws what the
  serialization of \<open>params\<close> throws.
\<close>

definition serialize_params :: "env \<Rightarrow> jsvalue \<Rightarrow> js_error + jsstring option" where
  "serialize_params e params =
     (case params of
        Undefined \<Rightarrow> Inr (Some (stringify e (JObj [])))
      | Json v \<Rightarrow> Inr (Some (stringify e v))
      | Other r \<Rightarrow> r)"

definition stringify_request :: "env \<Rightarrow> jsstring \<Rightarrow> jsvalue \<Rightarrow> nat \<Rightarrow> js_error + jsstring" where
  "stringify_request e method params n =
     (case serialize_params e params of
        Inl thrown \<Rightarrow> Inl thrown
      | Inr text \<Rightarrow>
          Inr (stringify_object
                 ([(js ''jsonrpc'', quote (js ''2.0'')), (js ''method'', quote method)] @
                  (case text of None \<Rightarrow> [] | Some t \<Rightarrow> [(js ''params'', t)]) @
                  [(js ''id'', number_text e (of_nat n))])))"

text \<open>
  \<open>send\<close>. The method is \<open>async\<close>: what \<open>start\<close> throws rejects the promise it returns
  (\<open>Inl\<close>), before the executor that registers the request runs. The executor
  increments the counter and stores the request, then reads \<open>child\<close> again (on \<open>null\<close> it
  would throw a TypeError), then serializes the request and writes the line. What the
  executor throws rejects the promise it has registered, and the entry stays.
\<close>

definition send ::
  "env \<Rightarrow> bridge \<Rightarrow> jsstring \<Rightarrow> jsvalue \<Rightarrow> (js_error + promise) \<times> effect list \<times> bridge" where
  "send e b method params =
     (case (if child b = None then start e b else (None, [], b)) of
        (Some err, out, b1) \<Rightarrow> (Inl err, out, b1)
      | (None, out, b1) \<Rightarrow>
          (let id = requestId b1 + 1;
               b2 = b1\<lparr>requestId := id, pendingRequests := (pendingRequests b1)(id \<mapsto> Promise id)\<rparr>
           in case child b2 of
                None \<Rightarrow> (Inr (Promise id), out @ [Reject (Promise id) TypeError], b2)
              | Some c \<Rightarrow>
                  (case stringify_request e method params id of
                     Inl thrown \<Rightarrow> (Inr (Promise id), out @ [Reject (Promise id) thrown], b2)
                   | Inr text \<Rightarrow> (Inr (Promise id), out @ [StdinWrite c (text @ [10])], b2))))"

definition stop :: "bridge \<Rightarrow> effect list \<times> bridge" where
  "stop b = ((case child b of None \<Rightarrow> [] | Some c \<Rightarrow> [Kill c]), b\<lparr>child := None\<rparr>)"

subsection \<open>Runs of a bridge\<close>

text \<open>
  What can happen to a bridge: a call of one of its three public methods or of the
  inherited \<open>on('error', listener)\<close>, or one of the three events of a worker. A run
  records the promise that each \<open>send\<close> returned, the error that a method or a listener
  of the bridge threw, and every effect.
\<close>

datatype action =
  Send jsstring jsvalue
| Start
| Stop
| OnError
| Data "8 word list"
| Exit "int option"
| ChildError jsstring

fun step :: "env \<Rightarrow> bridge \<Rightarrow> action \<Rightarrow> (js_error + promise) list \<times> effect list \<times> bridge" where
  "step e b (Send method params) = (case send e b method params of (r, out, b') \<Rightarrow> ([r], out, b'))"
| "step e b Start =
     (case start e b of (Some err, out, b') \<Rightarrow> ([Inl err], out, b') | (None, out, b') \<Rightarrow> ([], out, b'))"
| "step e b Stop = (case stop b of (out, b') \<Rightarrow> ([], out, b'))"
| "step e b OnError = ([], [], b\<lparr>errorListeners := errorListeners b + 1\<rparr>)"
| "step e b (Data data) = (case on_data e b data of (out, b') \<Rightarrow> ([], out, b'))"
| "step e b (Exit code) = (case on_exit b code of (out, b') \<Rightarrow> ([], out, b'))"
| "step e b (ChildError err) =
     (case on_error b err of
        (Some thrown, out, b') \<Rightarrow> ([Inl thrown], out, b') | (None, out, b') \<Rightarrow> ([], out, b'))"

fun run :: "env \<Rightarrow> bridge \<Rightarrow> action list \<Rightarrow> (js_error + promise) list \<times> effect list \<times> bridge" where
  "run e b [] = ([], [], b)"
| "run e b (a # as) =
     (case step e b a of
        (rs, out, b') \<Rightarrow> (case run e b' as of (rs', out', b'') \<Rightarrow> (rs @ rs', out @ out', b'')))"

text \<open>The ids of the promises that the calls of \<open>send\<close> returned, in order.\<close>

fun allocated :: "(js_error + promise) list \<Rightarrow> nat list" where
  "allocated [] = []"
| "allocated (Inl err # rs) = allocated rs"
| "allocated (Inr (Promise k) # rs) = k # allocated rs"

text \<open>The promises that a list of effects settles, in order.\<close>

fun settled :: "effect list \<Rightarrow> promise list" where
  "settled [] = []"
| "settled (Resolve p v # out) = p # settled out"
| "settled (Reject p err # out) = p # settled out"
| "settled (x # out) = settled out"

text \<open>\<open>handleData\<close> on each chunk of text in turn.\<close>

fun handleChunks :: "env \<Rightarrow> bridge \<Rightarrow> jsstring list \<Rightarrow> effect list \<times> bridge" where
  "handleChunks e b [] = ([], b)"
| "handleChunks e b (chunk # chunks) =
     (case handleData e b chunk of
        (out, b') \<Rightarrow> (case handleChunks e b' chunks of (out', b'') \<Rightarrow> (out @ out', b'')))"


text \<open>The executables that a list of effects spawns, in order.\<close>

fun spawned :: "effect list \<Rightarrow> jsstring list" where
  "spawned [] = []"
| "spawned (Spawn p # out) = p # spawned out"
| "spawned (x # out) = spawned out"

subsection \<open>An example environment\<close>

text \<open>
  A bridge constructed with an explicit path, in an environment where neither candidate
  path exists, where \<open>spawn\<close> throws for a path with a NUL character, with \<open>JSON.parse\<close>
  on the few lines that the examples use (five responses, and a SyntaxError on anything
  else) and the digits of the two numbers that the examples print.
\<close>

definition response_ok :: json where
  "response_ok =
     JObj [(js ''jsonrpc'', JStr (js ''2.0'')), (js ''id'', JNum (Finite 1)),
           (js ''result'', JObj [(js ''status'', JStr (js ''ok'')),
                                 (js ''version'', JStr (js ''0.0.1''))])]"

definition response_error :: json where
  "response_error =
     JObj [(js ''jsonrpc'', JStr (js ''2.0'')), (js ''id'', JNum (Finite 1)),
           (js ''error'', JObj [(js ''code'', JNum (Finite (- 32000))), (js ''message'', JStr (js ''boom'')),
                                (js ''data'', JObj [(js ''retry'', JBool False)])])]"

definition response_unknown :: json where
  "response_unknown =
     JObj [(js ''jsonrpc'', JStr (js ''2.0'')), (js ''id'', JNum (Finite 7)), (js ''result'', JBool True)]"

definition response_bare :: json where
  "response_bare = JObj [(js ''jsonrpc'', JStr (js ''2.0'')), (js ''id'', JNum (Finite 1))]"

text \<open>
  A response whose error message is an object with a property \<open>toString\<close>: valid JSON
  that \<open>new Error\<close> cannot convert to a string.
\<close>

definition response_unprintable :: json where
  "response_unprintable =
     JObj [(js ''id'', JNum (Finite 1)),
           (js ''error'', JObj [(js ''message'', JObj [(js ''toString'', JNum (Finite 0))])])]"

text \<open>The bytes of the response with neither field, as the worker writes them, with a line feed.\<close>

definition response_bare_bytes :: "8 word list" where
  \<open>response_bare_bytes = map of_char ''{"jsonrpc":"2.0","id":1}'' @ [10]\<close>

definition parse_example :: "jsstring \<Rightarrow> json option" where
  \<open>parse_example s =
     (if s = js ''{"jsonrpc":"2.0","id":1,"result":{"status":"ok","version":"0.0.1"}}''
        then Some response_ok
      else if s = js ''{"jsonrpc":"2.0","id":1,"error":{"code":-32000,"message":"boom","data":{"retry":false}}}''
        then Some response_error
      else if s = js ''{"jsonrpc":"2.0","id":7,"result":true}'' then Some response_unknown
      else if s = js ''{"jsonrpc":"2.0","id":1}'' then Some response_bare
      else if s = js ''{"id":1,"error":{"message":{"toString":0}}}'' then Some response_unprintable
      else None)\<close>

definition spawn_example :: "jsstring \<Rightarrow> js_error option" where
  "spawn_example p = (if 0 \<in> set p then Some TypeError else None)"

definition number_example :: "rat \<Rightarrow> numchar list" where
  "number_example q =
     (if q = 1 / 100 then [NumDigit 0, NumPoint, NumDigit 0, NumDigit 1]
      else if q = 10 ^ 21 then [NumDigit 1, NumExponent, NumPlus, NumDigit 2, NumDigit 1]
      else [])"

definition env_example :: env where
  "env_example =
     \<lparr>devPath = js ''/repo/dist/omniagentpay-server'',
      prodPath = js ''/repo/omniagentpay-js/bin/omniagentpay-server'',
      files = [], spawn_throws = spawn_example, JSON_parse = parse_example,
      Number_toString = number_example\<rparr>"

definition sidecar :: jsstring where
  "sidecar = js ''/opt/omniagentpay-server''"

text \<open>The bridge after \<open>new Bridge(sidecar)\<close> and one \<open>send('health', {})\<close>.\<close>

definition bridge_example :: bridge where
  "bridge_example =
     \<lparr>binaryPath = Some sidecar, child = Some (ChildProcess sidecar), requestId = 1,
      pendingRequests = [1 \<mapsto> Promise 1], buffer = [], errorListeners = 0\<rparr>"


section \<open>Properties\<close>

subsection \<open>The example bridge\<close>



lemma spawn_example_sidecar: "spawn_throws env_example sidecar = None"
  by (simp add: env_example_def spawn_example_def sidecar_def js_def)

lemma getBinaryPath_sidecar: "binaryPath b = Some sidecar \<Longrightarrow> getBinaryPath e b = Inr sidecar"
  by (simp add: getBinaryPath_def sidecar_def js_def)


subsection \<open>Termination of the worker\<close>

text \<open>
  C1, as the specification states it: when the worker exits, each pending request is
  rejected once. The bridge does not do that. With request 1 pending, the \<open>exit\<close>
  listener and \<open>stop\<close> settle no promise and leave the entry in the map.
\<close>

theorem exit_rejects_pending_counterexample:
  "pendingRequests bridge_example 1 = Some (Promise 1) \<and>
   count_list (settled (fst (on_exit bridge_example (Some 1)))) (Promise 1) = 0 \<and>
   count_list (settled (fst (stop bridge_example))) (Promise 1) = 0 \<and>
   pendingRequests (snd (on_exit bridge_example (Some 1))) 1 = Some (Promise 1) \<and>
   pendingRequests (snd (stop bridge_example)) 1 = Some (Promise 1)"
  by (simp add: bridge_example_def on_exit_def stop_def)

text \<open>
  C1, amended: the \<open>exit\<close> listener and \<open>stop\<close> release the handle of the worker and
  nothing more. Neither settles a promise, and the pending requests, the id counter and
  the buffer are what they were: a request pending at that moment stays pending.
\<close>

theorem exit_and_stop_keep_pending:
  "settled (fst (on_exit b code)) = [] \<and> settled (fst (stop b)) = [] \<and>
   snd (on_exit b code) = b\<lparr>child := None\<rparr> \<and> snd (stop b) = b\<lparr>child := None\<rparr> \<and>
   pendingRequests (snd (on_exit b code)) = pendingRequests b \<and>
   pendingRequests (snd (stop b)) = pendingRequests b"
  by (simp add: on_exit_def stop_def split: option.split)

subsection \<open>What \<open>send\<close> writes\<close>


















text \<open>The four ways through \<open>send\<close>.\<close>

lemma send_attached:
  "child b = Some c \<Longrightarrow>
   send e b method params =
     (Inr (Promise (requestId b + 1)),
      [case stringify_request e method params (requestId b + 1) of
         Inl thrown \<Rightarrow> Reject (Promise (requestId b + 1)) thrown
       | Inr text \<Rightarrow> StdinWrite c (text @ [10])],
      b\<lparr>requestId := requestId b + 1,
         pendingRequests := (pendingRequests b)(requestId b + 1 \<mapsto> Promise (requestId b + 1))\<rparr>)"
  by (simp add: send_def Let_def split: sum.split)

lemma send_launched:
  "child b = None \<Longrightarrow> getBinaryPath e b = Inr p \<Longrightarrow> spawn_throws e p = None \<Longrightarrow>
   send e b method params =
     (Inr (Promise (requestId b + 1)),
      [ConsoleLog (js ''[OmniAgentPay] Spawning sidecar: '' @ p), Spawn p,
       case stringify_request e method params (requestId b + 1) of
         Inl thrown \<Rightarrow> Reject (Promise (requestId b + 1)) thrown
       | Inr text \<Rightarrow> StdinWrite (ChildProcess p) (text @ [10])],
      b\<lparr>child := Some (ChildProcess p), requestId := requestId b + 1,
         pendingRequests := (pendingRequests b)(requestId b + 1 \<mapsto> Promise (requestId b + 1))\<rparr>)"
  by (simp add: send_def start_def Let_def split: sum.split)

lemma send_not_found:
  "child b = None \<Longrightarrow> getBinaryPath e b = Inl err \<Longrightarrow> send e b method params = (Inl err, [], b)"
  by (simp add: send_def start_def)

lemma send_spawn_throws:
  "child b = None \<Longrightarrow> getBinaryPath e b = Inr p \<Longrightarrow> spawn_throws e p = Some err \<Longrightarrow>
   send e b method params =
     (Inl err, [ConsoleLog (js ''[OmniAgentPay] Spawning sidecar: '' @ p)], b)"
  by (simp add: send_def start_def)






subsection \<open>Framing the output of the worker\<close>

text \<open>
  How \<open>split\<close> distributes over concatenation: the segments of the first part but its
  last, then the segments of that last one followed by the second part.
\<close>

lemma split_nl_nonempty: "split_nl s \<noteq> []"
  by (induction s) (auto split: list.split)

lemma split_nl_Cons:
  "split_nl (c # s) = (if c = 10 then [] # split_nl s else (c # hd (split_nl s)) # tl (split_nl s))"
  using split_nl_nonempty [of s] by (cases "split_nl s") simp_all

lemma split_nl_append:
  "split_nl (a @ b) = butlast (split_nl a) @ split_nl (last (split_nl a) @ b)"
proof (induction a)
  case Nil
  show ?case by simp
next
  case (Cons c cs)
  show ?case
  proof (cases "c = 10")
    case True
    with Cons show ?thesis by (simp add: split_nl_nonempty)
  next
    case False
    show ?thesis
    proof (cases "butlast (split_nl cs)")
      case Nil
      then have one: "split_nl cs = [last (split_nl cs)]"
        using split_nl_nonempty [of cs] by (metis append_butlast_last_id append_Nil)
      then have "hd (split_nl cs) = last (split_nl cs)" "tl (split_nl cs) = []"
        by (metis list.sel(1), metis list.sel(3))
      with False Cons Nil show ?thesis
        by (simp add: split_nl_Cons del: split_nl.simps)
    next
      case (Cons l ls)
      then have "split_nl cs = l # ls @ [last (split_nl cs)]"
        using split_nl_nonempty [of cs] by (metis append_butlast_last_id append_Cons)
      then have sel: "hd (split_nl cs) = l" "tl (split_nl cs) = ls @ [last (split_nl cs)]"
        by (metis list.sel(1), metis list.sel(3))
      have "split_nl (cs @ b) = (l # ls) @ split_nl (last (split_nl cs) @ b)"
        using Cons.IH Cons by simp
      then have sel2: "hd (split_nl (cs @ b)) = l"
        "tl (split_nl (cs @ b)) = ls @ split_nl (last (split_nl cs) @ b)"
        by simp_all
      have "split_nl ((c # cs) @ b) = (c # l) # ls @ split_nl (last (split_nl cs) @ b)"
        using False sel2 by (simp add: split_nl_Cons del: split_nl.simps)
      moreover have "butlast (split_nl (c # cs)) = (c # l) # ls"
        using False sel by (simp add: split_nl_Cons del: split_nl.simps)
      moreover have "last (split_nl (c # cs)) = last (split_nl cs)"
        using False sel by (simp add: split_nl_Cons del: split_nl.simps)
      ultimately show ?thesis by simp
    qed
  qed
qed

lemma pop_or_empty_last: "pop_or_empty (split_nl s) = last (split_nl s)"
  by (simp add: pop_or_empty_def split_nl_nonempty)

lemma resolveRequest_buffer:
  "resolveRequest e (b\<lparr>buffer := x\<rparr>) r =
     (case resolveRequest e b r of Inl err \<Rightarrow> Inl err | Inr (out, b') \<Rightarrow> Inr (out, b'\<lparr>buffer := x\<rparr>))"
  by (simp add: resolveRequest_def Let_def split: option.split sum.split)

lemma handleLine_buffer:
  "handleLine e (b\<lparr>buffer := x\<rparr>) line =
     (case handleLine e b line of (out, b') \<Rightarrow> (out, b'\<lparr>buffer := x\<rparr>))"
  by (simp add: handleLine_def try_block_def resolveRequest_buffer Let_def
      split: option.split sum.split prod.split)

lemma handleLines_buffer:
  "handleLines e (b\<lparr>buffer := x\<rparr>) lines =
     (case handleLines e b lines of (out, b') \<Rightarrow> (out, b'\<lparr>buffer := x\<rparr>))"
proof (induction lines arbitrary: b)
  case Nil
  show ?case by simp
next
  case (Cons l ls)
  show ?case
    by (simp add: handleLine_buffer Cons.IH split: prod.split)
qed

lemma handleLines_append:
  "handleLines e b (xs @ ys) =
     (case handleLines e b xs of
        (out, b') \<Rightarrow> (case handleLines e b' ys of (out', b'') \<Rightarrow> (out @ out', b'')))"
  by (induction xs arbitrary: b) (simp_all split: prod.split)

text \<open>
  On text, the chunk boundaries do not matter: \<open>handleData\<close> on two chunks, one after the
  other, performs the effects and reaches the bridge of \<open>handleData\<close> on their
  concatenation. The segment after the last line feed is the new buffer.
\<close>

lemma handleData_append:
  "handleData e b (chunk @ chunk') =
     (case handleData e b chunk of
        (out, b') \<Rightarrow> (case handleData e b' chunk' of (out', b'') \<Rightarrow> (out @ out', b'')))"
proof -
  let ?l1 = "butlast (split_nl (buffer b @ chunk))"
  let ?r1 = "last (split_nl (buffer b @ chunk))"
  let ?l2 = "split_nl (?r1 @ chunk')"
  obtain out b1 where h1: "handleLines e b ?l1 = (out, b1)" by (cases "handleLines e b ?l1")
  obtain out' b2 where h2: "handleLines e b1 (butlast ?l2) = (out', b2)"
    by (cases "handleLines e b1 (butlast ?l2)")
  have s: "split_nl (buffer b @ chunk @ chunk') = ?l1 @ ?l2"
    using split_nl_append [of "buffer b @ chunk" chunk'] by simp
  have lhs: "handleData e b (chunk @ chunk') = (out @ out', b2\<lparr>buffer := last ?l2\<rparr>)"
    by (simp add: handleData_def Let_def s pop_or_empty_def split_nl_nonempty butlast_append
        handleLines_append handleLines_buffer h1 h2)
  have d1: "handleData e b chunk = (out, b1\<lparr>buffer := ?r1\<rparr>)"
    by (simp add: handleData_def Let_def pop_or_empty_last handleLines_buffer h1)
  have d2: "handleData e (b1\<lparr>buffer := ?r1\<rparr>) chunk' = (out', b2\<lparr>buffer := last ?l2\<rparr>)"
    by (simp add: handleData_def Let_def pop_or_empty_last handleLines_buffer h2)
  show ?thesis by (simp add: lhs d1 d2)
qed


lemma split_nl_no_nl_id: "10 \<notin> set s \<Longrightarrow> split_nl s = [s]"
  by (induction s) auto

lemma last_split_nl_no_nl: "10 \<notin> set (last (split_nl s))"
  by (induction s) (auto simp: split_nl_nonempty split: list.split)

lemma resolveRequest_buffer_same:
  "resolveRequest e b r = Inr (out, b') \<Longrightarrow> buffer b' = buffer b"
  by (auto simp: resolveRequest_def Let_def split: option.splits sum.splits if_splits)

lemma handleLine_buffer_same: "buffer (snd (handleLine e b line)) = buffer b"
  by (auto simp: handleLine_def try_block_def Let_def dest: resolveRequest_buffer_same
      split: option.splits sum.splits)

lemma handleLines_buffer_same: "buffer (snd (handleLines e b lines)) = buffer b"
proof (induction lines arbitrary: b)
  case Nil
  show ?case by simp
next
  case (Cons l ls)
  obtain out b' where h: "handleLine e b l = (out, b')" by (cases "handleLine e b l")
  then have "buffer b' = buffer b" using handleLine_buffer_same [of e b l] by simp
  with Cons.IH [of b'] h show ?case by (cases "handleLines e b' ls") simp
qed

lemma handleData_buffer: "buffer (snd (handleData e b chunk)) = last (split_nl (buffer b @ chunk))"
  by (simp add: handleData_def Let_def handleLines_buffer_same pop_or_empty_last)

lemma handleData_empty: "10 \<notin> set (buffer b) \<Longrightarrow> handleData e b [] = ([], b)"
  by (simp add: handleData_def split_nl_no_nl_id pop_or_empty_def)

lemma handleData_chunks:
  "10 \<notin> set (buffer b) \<Longrightarrow> handleChunks e b chunks = handleData e b (concat chunks)"
proof (induction chunks arbitrary: b)
  case Nil
  then show ?case by (simp add: handleData_empty)
next
  case (Cons c cs)
  obtain out b' where h: "handleData e b c = (out, b')" by (cases "handleData e b c")
  then have "buffer b' = last (split_nl (buffer b @ c))"
    using handleData_buffer [of e b c] by simp
  then have "10 \<notin> set (buffer b')" by (simp add: last_split_nl_no_nl)
  then have "handleChunks e b' cs = handleData e b' (concat cs)" by (rule Cons.IH)
  with h show ?case by (simp add: handleData_append)
qed

text \<open>
  On bytes, they matter: \<open>on_data\<close> decodes each chunk on its own before \<open>handleData\<close>
  appends it. Two chunks are as good as one only where the decoder distributes over them.
\<close>

lemma on_data_append:
  "toString (data @ data') = toString data @ toString data' \<Longrightarrow>
   on_data e b (data @ data') =
     (case on_data e b data of
        (out, b') \<Rightarrow> (case on_data e b' data' of (out', b'') \<Rightarrow> (out @ out', b'')))"
  by (simp add: on_data_def handleData_append)

text \<open>It does after an ASCII byte, a line feed for one.\<close>

lemma utf8_decode_empty: "utf8_decode utf8_init [] = []"
  by (simp add: utf8_init_def)

lemma utf8_decode_ascii:
  "(\<And>x. x \<in> set xs \<Longrightarrow> x < 128) \<Longrightarrow>
   utf8_decode utf8_init (xs @ ys) = xs @ utf8_decode utf8_init ys"
proof (induction xs)
  case Nil
  show ?case by simp
next
  case (Cons x xs)
  then have "x < 128" and "utf8_decode utf8_init (xs @ ys) = xs @ utf8_decode utf8_init ys"
    by simp_all
  then show ?case by (simp add: utf8_init_def utf8_lead_def)
qed

lemma toString_ascii_append:
  assumes "\<And>x. x \<in> set data \<Longrightarrow> x < 128"
  shows "toString (data @ data') = toString data @ toString data'"
proof -
  have "\<And>x. x \<in> set (map unat data) \<Longrightarrow> x < 128"
    using assms by (auto simp: word_less_nat_alt)
  then have d: "utf8_decode utf8_init (map unat data @ ys) = map unat data @ utf8_decode utf8_init ys"
    for ys by (rule utf8_decode_ascii)
  have "utf8_decode utf8_init (map unat data) = map unat data"
    using d [of "[]"] by (simp only: append_Nil2 utf8_decode_empty)
  with d [of "map unat data'"] show ?thesis
    by (simp only: toString_def map_append concat_append)
qed

lemma toString_whole: "toString [0xC3, 0xA9, 0x0A] = [233, 10]"
  by (simp add: toString_def utf8_init_def utf8_lead_def utf16_units_def)

lemma toString_first: "toString [0xC3] = [65533]"
  by (simp add: toString_def utf8_init_def utf8_lead_def utf16_units_def)

lemma toString_second: "toString [0xA9, 0x0A] = [65533, 10]"
  by (simp add: toString_def utf8_init_def utf8_lead_def utf16_units_def)

text \<open>
  C3: the lines that the decoder emits do not depend on the chunk boundaries, also when
  a boundary falls inside a multibyte character. The bridge breaks this. The bytes
  \<open>C3 A9 0A\<close> are the character U+00E9 and a line feed. In one chunk, the bridge logs the
  line U+00E9; in the chunks \<open>C3\<close> and \<open>A9 0A\<close>, it logs the line U+FFFD U+FFFD.
\<close>

theorem split_multibyte_character:
  "fst (snd (run env_example bridge_example [Data [0xC3, 0xA9, 0x0A]])) =
     [ConsoleError [js ''[OmniAgentPay Sidecar Log] '' @ [233]]] \<and>
   fst (snd (run env_example bridge_example [Data [0xC3], Data [0xA9, 0x0A]])) =
     [ConsoleError [js ''[OmniAgentPay Sidecar Log] '' @ [65533, 65533]]]"
  by (simp add: on_data_def toString_whole toString_first toString_second handleData_def
      bridge_example_def pop_or_empty_def handleLine_def trim_def is_whitespace_def startsWith_def)

subsection \<open>Classifying a line\<close>

text \<open>\<open>trimmed.startsWith('{')\<close>: the trimmed line is not empty and begins with a brace.\<close>

lemma startsWith_brace: "startsWith s [123] \<longleftrightarrow> s \<noteq> [] \<and> hd s = 123"
  by (cases s) (auto simp: startsWith_def)

lemma handleLine_protocol:
  "trim line \<noteq> [] \<Longrightarrow> hd (trim line) = 123 \<Longrightarrow> handleLine e b line = try_block e b (trim line)"
  by (simp add: handleLine_def startsWith_brace)

lemma handleLine_diagnostic:
  "trim line \<noteq> [] \<Longrightarrow> hd (trim line) \<noteq> 123 \<Longrightarrow>
   handleLine e b line = ([ConsoleError [js ''[OmniAgentPay Sidecar Log] '' @ trim line]], b)"
  by (simp add: handleLine_def startsWith_brace)

lemma handleLine_blank: "trim line = [] \<Longrightarrow> handleLine e b line = ([], b)"
  by (simp add: handleLine_def)

lemma try_block_parsed:
  "JSON_parse e t = Some response \<Longrightarrow> resolveRequest e b response = Inr r \<Longrightarrow> try_block e b t = r"
  by (simp add: try_block_def)

lemma try_block_invalid:
  "JSON_parse e t = None \<Longrightarrow>
   try_block e b t = ([ConsoleError [js ''[OmniAgentPay] Invalid JSON from sidecar:'', t]], b)"
  by (simp add: try_block_def)

lemma try_block_thrown:
  "JSON_parse e t = Some response \<Longrightarrow> resolveRequest e b response = Inl err \<Longrightarrow>
   try_block e b t = ([ConsoleError [js ''[OmniAgentPay] Invalid JSON from sidecar:'', t]], b)"
  by (simp add: try_block_def)

text \<open>
  C4: a line goes to the \<open>try\<close> statement, where it is parsed, exactly when its trimmed
  content is not empty and begins with an opening brace. Any other line with content left
  after trimming is logged with \<open>console.error\<close> and nothing else happens: no promise is
  settled and the bridge is unchanged. A line that is blank after trimming is skipped. In
  the \<open>try\<close> statement, a line that \<open>JSON.parse\<close> accepts is handed to \<open>resolveRequest\<close>,
  and what \<open>resolveRequest\<close> does is what is done; a line that \<open>JSON.parse\<close> rejects is
  logged and nothing else happens; so is one on which \<open>resolveRequest\<close> throws.
  \<open>handleLine\<close> itself throws nothing.
\<close>

theorem handleLine_classifies:
  "(trim line \<noteq> [] \<and> hd (trim line) = 123 \<longrightarrow> handleLine e b line = try_block e b (trim line)) \<and>
   (trim line \<noteq> [] \<and> hd (trim line) \<noteq> 123 \<longrightarrow>
      handleLine e b line = ([ConsoleError [js ''[OmniAgentPay Sidecar Log] '' @ trim line]], b)) \<and>
   (trim line = [] \<longrightarrow> handleLine e b line = ([], b)) \<and>
   (JSON_parse e t = None \<longrightarrow>
      try_block e b t = ([ConsoleError [js ''[OmniAgentPay] Invalid JSON from sidecar:'', t]], b)) \<and>
   (JSON_parse e t = Some response \<and> resolveRequest e b response = Inl err \<longrightarrow>
      try_block e b t = ([ConsoleError [js ''[OmniAgentPay] Invalid JSON from sidecar:'', t]], b)) \<and>
   (JSON_parse e t = Some response \<and> resolveRequest e b response = Inr r \<longrightarrow>
      try_block e b t = r)"
  by (simp add: handleLine_protocol handleLine_diagnostic handleLine_blank try_block_invalid
      try_block_thrown try_block_parsed)

text \<open>
  A diagnostic line, a blank line, a line with a brace that does not parse, a line that
  parses and on which \<open>resolveRequest\<close> throws, and a response to the pending request 1,
  which \<open>resolveRequest\<close> resolves.
\<close>

lemma trim_log: "trim (js ''log: starting up'') = js ''log: starting up''"
  by (simp add: trim_def js_def is_whitespace_def)

lemma trim_oops: "trim ([32, 32] @ js ''{oops'' @ [13]) = js ''{oops''"
  by (simp add: trim_def js_def is_whitespace_def)

lemma trim_blank: "trim [32, 9, 13] = []"
  by (simp add: trim_def is_whitespace_def)

lemma parse_oops: "JSON_parse env_example (js ''{oops'') = None"
  by (simp add: env_example_def parse_example_def js_def)

lemma trim_unprintable:
  \<open>trim (js ''{"id":1,"error":{"message":{"toString":0}}}'') =
     js ''{"id":1,"error":{"message":{"toString":0}}}''\<close>
  by (simp add: trim_def js_def is_whitespace_def)

lemma parse_unprintable:
  \<open>JSON_parse env_example (js ''{"id":1,"error":{"message":{"toString":0}}}'') =
     Some response_unprintable\<close>
  by (simp add: env_example_def parse_example_def js_def)

lemma trim_bare: \<open>trim (js ''{"jsonrpc":"2.0","id":1}'') = js ''{"jsonrpc":"2.0","id":1}''\<close>
  by (simp add: trim_def js_def is_whitespace_def)

lemma parse_bare:
  \<open>JSON_parse env_example (js ''{"jsonrpc":"2.0","id":1}'') =
     Some (JObj [(js ''jsonrpc'', JStr (js ''2.0'')), (js ''id'', JNum (Finite 1))])\<close>
  by (simp add: env_example_def parse_example_def response_bare_def js_def)

lemma resolveRequest_bare:
  "resolveRequest env_example bridge_example
     (JObj [(js ''jsonrpc'', JStr (js ''2.0'')), (js ''id'', JNum (Finite 1))]) =
     Inr ([Resolve (Promise 1) None], bridge_example\<lparr>pendingRequests := Map.empty\<rparr>)"
  by (simp add: resolveRequest_def bridge_example_def map_get_def map_delete_def key_of_def js_def)

lemma resolveRequest_unprintable: "resolveRequest env_example bridge_example response_unprintable = Inl TypeError"
  by (simp add: resolveRequest_def response_unprintable_def bridge_example_def map_get_def key_of_def
      new_Error_def js_def)

theorem handleLine_classifies_witness:
  \<open>handleLine env_example bridge_example (js ''log: starting up'') =
     ([ConsoleError [js ''[OmniAgentPay Sidecar Log] log: starting up'']], bridge_example) \<and>
   handleLine env_example bridge_example [32, 9, 13] = ([], bridge_example) \<and>
   handleLine env_example bridge_example ([32, 32] @ js ''{oops'' @ [13]) =
     ([ConsoleError [js ''[OmniAgentPay] Invalid JSON from sidecar:'', js ''{oops'']], bridge_example) \<and>
   handleLine env_example bridge_example (js ''{"id":1,"error":{"message":{"toString":0}}}'') =
     ([ConsoleError [js ''[OmniAgentPay] Invalid JSON from sidecar:'',
                     js ''{"id":1,"error":{"message":{"toString":0}}}'']], bridge_example) \<and>
   handleLine env_example bridge_example (js ''{"jsonrpc":"2.0","id":1}'') =
     ([Resolve (Promise 1) None], bridge_example\<lparr>pendingRequests := Map.empty\<rparr>)\<close>
proof -
  let ?u = \<open>js ''{"id":1,"error":{"message":{"toString":0}}}''\<close>
  let ?v = \<open>js ''{"jsonrpc":"2.0","id":1}''\<close>
  have d: "trim (js ''log: starting up'') \<noteq> [] \<and> hd (trim (js ''log: starting up'')) \<noteq> 123"
    unfolding trim_log by (simp add: js_def)
  have p: "trim ([32, 32] @ js ''{oops'' @ [13]) \<noteq> [] \<and> hd (trim ([32, 32] @ js ''{oops'' @ [13])) = 123"
    unfolding trim_oops by (simp add: js_def)
  have u: "trim ?u \<noteq> [] \<and> hd (trim ?u) = 123"
    unfolding trim_unprintable by (simp add: js_def)
  have 1: "handleLine env_example bridge_example (js ''log: starting up'') =
      ([ConsoleError [js ''[OmniAgentPay Sidecar Log] '' @ js ''log: starting up'']], bridge_example)"
    using handleLine_classifies [of "js ''log: starting up''" env_example bridge_example] d
    unfolding trim_log by blast
  have 2: "handleLine env_example bridge_example [32, 9, 13] = ([], bridge_example)"
    using handleLine_classifies [of "[32, 9, 13]" env_example bridge_example] trim_blank by blast
  have 3: "handleLine env_example bridge_example ([32, 32] @ js ''{oops'' @ [13]) =
      ([ConsoleError [js ''[OmniAgentPay] Invalid JSON from sidecar:'', js ''{oops'']], bridge_example)"
    using handleLine_classifies [of "[32, 32] @ js ''{oops'' @ [13]" env_example bridge_example
        "js ''{oops''"] p parse_oops
    unfolding trim_oops by metis
  have 4: "handleLine env_example bridge_example ?u =
      ([ConsoleError [js ''[OmniAgentPay] Invalid JSON from sidecar:'', ?u]], bridge_example)"
    using handleLine_classifies [of ?u env_example bridge_example ?u response_unprintable TypeError]
      u parse_unprintable resolveRequest_unprintable
    unfolding trim_unprintable by metis
  have v: "trim ?v \<noteq> [] \<and> hd (trim ?v) = 123"
    unfolding trim_bare by (simp add: js_def)
  have 5: "handleLine env_example bridge_example ?v =
      ([Resolve (Promise 1) None], bridge_example\<lparr>pendingRequests := Map.empty\<rparr>)"
    using handleLine_classifies [of ?v env_example bridge_example ?v
        "JObj [(js ''jsonrpc'', JStr (js ''2.0'')), (js ''id'', JNum (Finite 1))]" _
        "([Resolve (Promise 1) None], bridge_example\<lparr>pendingRequests := Map.empty\<rparr>)"]
      v parse_bare resolveRequest_bare
    unfolding trim_bare by metis
  from 1 2 3 4 5 show ?thesis by (simp add: js_def)
qed

subsection \<open>Settling a request\<close>

text \<open>The three ways through \<open>resolveRequest\<close> for a response that is not \<open>null\<close>.\<close>

lemma resolveRequest_unmatched:
  "response \<noteq> JNull \<Longrightarrow> map_get (pendingRequests b) (get_prop response (js ''id'')) = None \<Longrightarrow>
   resolveRequest e b response = Inr ([], b)"
  by (simp add: resolveRequest_def)

lemma resolveRequest_resolve:
  "response \<noteq> JNull \<Longrightarrow>
   map_get (pendingRequests b) (get_prop response (js ''id'')) = Some request \<Longrightarrow>
   \<not> truthy (get_prop response (js ''error'')) \<Longrightarrow>
   resolveRequest e b response =
     Inr ([Resolve request (get_prop response (js ''result''))],
          b\<lparr>pendingRequests := map_delete (pendingRequests b) (get_prop response (js ''id''))\<rparr>)"
  by (simp add: resolveRequest_def)

lemma resolveRequest_reject:
  "response \<noteq> JNull \<Longrightarrow>
   map_get (pendingRequests b) (get_prop response (js ''id'')) = Some request \<Longrightarrow>
   get_prop response (js ''error'') = Some error \<Longrightarrow> truthy (Some error) \<Longrightarrow>
   new_Error e (get_prop error (js ''message'')) = Inr err \<Longrightarrow>
   resolveRequest e b response =
     Inr ([Reject request err],
          b\<lparr>pendingRequests := map_delete (pendingRequests b) (get_prop response (js ''id''))\<rparr>)"
  by (simp add: resolveRequest_def)

lemma map_get_delete: "map_get (map_delete m v) v = None"
  by (simp add: map_get_def map_delete_def split: option.split)

text \<open>
  C7: a line that parses to an object whose \<open>id\<close> is no key of the pending requests (a
  number never allocated or already settled, a value that is not a number, or no \<open>id\<close>
  at all) is dropped: \<open>resolveRequest\<close> returns without throwing, no effect is
  performed, no promise is settled and the bridge is unchanged.
\<close>

theorem unmatched_response_dropped:
  assumes "trim line \<noteq> []" and "hd (trim line) = 123"
    and "JSON_parse e (trim line) = Some (JObj kvs)"
    and "map_get (pendingRequests b) (map_of kvs (js ''id'')) = None"
  shows "resolveRequest e b (JObj kvs) = Inr ([], b) \<and> handleLine e b line = ([], b)"
proof -
  have r: "resolveRequest e b (JObj kvs) = Inr ([], b)"
    using assms(4) by (simp add: resolveRequest_unmatched)
  with assms(1-3) show ?thesis
    by (simp add: handleLine_protocol try_block_parsed [OF assms(3) r])
qed

text \<open>A response for id 7 while only request 1 is pending.\<close>

lemma trim_unknown:
  \<open>trim (js ''{"jsonrpc":"2.0","id":7,"result":true}'') = js ''{"jsonrpc":"2.0","id":7,"result":true}''\<close>
  by (simp add: trim_def js_def is_whitespace_def)

lemma parse_unknown:
  \<open>JSON_parse env_example (js ''{"jsonrpc":"2.0","id":7,"result":true}'') =
     Some (JObj [(js ''jsonrpc'', JStr (js ''2.0'')), (js ''id'', JNum (Finite 7)), (js ''result'', JBool True)])\<close>
  by (simp add: env_example_def parse_example_def response_unknown_def js_def)

theorem unmatched_response_dropped_witness:
  \<open>handleLine env_example bridge_example (js ''{"jsonrpc":"2.0","id":7,"result":true}'') =
     ([], bridge_example)\<close>
proof -
  have 1: \<open>trim (js ''{"jsonrpc":"2.0","id":7,"result":true}'') \<noteq> []\<close>
    unfolding trim_unknown by (simp add: js_def)
  have 2: \<open>hd (trim (js ''{"jsonrpc":"2.0","id":7,"result":true}'')) = 123\<close>
    unfolding trim_unknown by (simp add: js_def)
  have 3: \<open>JSON_parse env_example (trim (js ''{"jsonrpc":"2.0","id":7,"result":true}'')) =
     Some (JObj [(js ''jsonrpc'', JStr (js ''2.0'')), (js ''id'', JNum (Finite 7)), (js ''result'', JBool True)])\<close>
    unfolding trim_unknown by (rule parse_unknown)
  have 4: "map_get (pendingRequests bridge_example)
      (map_of [(js ''jsonrpc'', JStr (js ''2.0'')), (js ''id'', JNum (Finite 7)), (js ''result'', JBool True)]
         (js ''id'')) = None"
    by (simp add: map_get_def key_of_def bridge_example_def js_def)
  from unmatched_response_dropped [OF 1 2 3 4] show ?thesis by simp
qed

text \<open>
  C10: a line that parses to an object whose \<open>id\<close> is the key of a pending request, and
  whose \<open>error\<close> is absent or falsy, resolves the promise of that request with the value
  of \<open>result\<close>, whatever it is, and deletes the entry. Nothing checks that one of \<open>result\<close>
  and \<open>error\<close> is there: with neither, the promise is resolved with \<open>undefined\<close>.
\<close>

theorem resolves_without_validation:
  assumes "trim line \<noteq> []" and "hd (trim line) = 123"
    and "JSON_parse e (trim line) = Some (JObj kvs)"
    and "map_get (pendingRequests b) (map_of kvs (js ''id'')) = Some request"
    and "\<not> truthy (map_of kvs (js ''error''))"
  shows "handleLine e b line =
           ([Resolve request (map_of kvs (js ''result''))],
            b\<lparr>pendingRequests := map_delete (pendingRequests b) (map_of kvs (js ''id''))\<rparr>)"
proof -
  have "resolveRequest e b (JObj kvs) =
      Inr ([Resolve request (map_of kvs (js ''result''))],
           b\<lparr>pendingRequests := map_delete (pendingRequests b) (map_of kvs (js ''id''))\<rparr>)"
    using assms(4,5) by (simp add: resolveRequest_resolve)
  from try_block_parsed [OF assms(3) this] assms(1,2) show ?thesis
    by (simp add: handleLine_protocol)
qed

text \<open>A response for the pending request 1 with neither \<open>result\<close> nor \<open>error\<close>.\<close>

theorem resolves_without_validation_witness:
  \<open>handleLine env_example bridge_example (js ''{"jsonrpc":"2.0","id":1}'') =
     ([Resolve (Promise 1) None], bridge_example\<lparr>pendingRequests := Map.empty\<rparr>)\<close>
proof -
  have 1: \<open>trim (js ''{"jsonrpc":"2.0","id":1}'') \<noteq> []\<close>
    unfolding trim_bare by (simp add: js_def)
  have 2: \<open>hd (trim (js ''{"jsonrpc":"2.0","id":1}'')) = 123\<close>
    unfolding trim_bare by (simp add: js_def)
  have 3: \<open>JSON_parse env_example (trim (js ''{"jsonrpc":"2.0","id":1}'')) =
     Some (JObj [(js ''jsonrpc'', JStr (js ''2.0'')), (js ''id'', JNum (Finite 1))])\<close>
    unfolding trim_bare by (rule parse_bare)
  have 4: "map_get (pendingRequests bridge_example)
      (map_of [(js ''jsonrpc'', JStr (js ''2.0'')), (js ''id'', JNum (Finite 1))] (js ''id'')) = Some (Promise 1)"
    by (simp add: map_get_def key_of_def bridge_example_def js_def)
  have 5: "\<not> truthy (map_of [(js ''jsonrpc'', JStr (js ''2.0'')), (js ''id'', JNum (Finite 1))] (js ''error''))"
    by (simp add: js_def)
  have 6: "map_of [(js ''jsonrpc'', JStr (js ''2.0'')), (js ''id'', JNum (Finite 1))] (js ''result'') = None"
    by (simp add: js_def)
  have 7: "map_delete (pendingRequests bridge_example)
      (map_of [(js ''jsonrpc'', JStr (js ''2.0'')), (js ''id'', JNum (Finite 1))] (js ''id'')) = Map.empty"
    by (simp add: map_delete_def key_of_def bridge_example_def js_def)
  from resolves_without_validation [OF 1 2 3 4 5] show ?thesis
    unfolding 6 7 .
qed

text \<open>
  C5, as the specification states it: the rejection carries the code, the message and
  the data of the error object of the response. The bridge rejects with
  \<open>new Error(error.message)\<close>: two responses whose error objects differ in code and data
  reject the promise with the same error, which has the message alone.
\<close>

theorem rejection_carries_code_counterexample:
  "resolveRequest env_example bridge_example response_error =
     Inr ([Reject (Promise 1) (Error (js ''boom''))], bridge_example\<lparr>pendingRequests := Map.empty\<rparr>) \<and>
   resolveRequest env_example bridge_example
     (JObj [(js ''id'', JNum (Finite 1)), (js ''error'', JObj [(js ''code'', JNum (Finite 7)), (js ''message'', JStr (js ''boom''))])]) =
     Inr ([Reject (Promise 1) (Error (js ''boom''))], bridge_example\<lparr>pendingRequests := Map.empty\<rparr>)"
  by (simp add: resolveRequest_def response_error_def bridge_example_def map_get_def map_delete_def
      key_of_def new_Error_def js_def)

text \<open>
  C5, amended: for a response whose \<open>id\<close> is the key of a pending request, a truthy
  \<open>error\<close> rejects the promise of that request with a plain \<open>Error\<close> made from the
  \<open>message\<close> of \<open>error\<close> alone (a string message as it is), provided the message
  converts to a string; an absent \<open>error\<close> resolves the promise with \<open>result\<close>. In both
  cases the entry is deleted.
\<close>

theorem matched_response_settles:
  assumes "map_get (pendingRequests b) (map_of kvs (js ''id'')) = Some request"
  shows "(map_of kvs (js ''error'') = Some error \<and> truthy (Some error) \<and>
          new_Error e (get_prop error (js ''message'')) = Inr err \<longrightarrow>
            resolveRequest e b (JObj kvs) =
              Inr ([Reject request err],
                   b\<lparr>pendingRequests := map_delete (pendingRequests b) (map_of kvs (js ''id''))\<rparr>)) \<and>
         (map_of kvs (js ''error'') = None \<longrightarrow>
            resolveRequest e b (JObj kvs) =
              Inr ([Resolve request (map_of kvs (js ''result''))],
                   b\<lparr>pendingRequests := map_delete (pendingRequests b) (map_of kvs (js ''id''))\<rparr>)) \<and>
         new_Error e (Some (JStr m)) = Inr (Error m) \<and>
         map_get (map_delete (pendingRequests b) (map_of kvs (js ''id''))) (map_of kvs (js ''id'')) = None"
  using assms
  by (simp add: resolveRequest_reject resolveRequest_resolve map_get_delete new_Error_def)

text \<open>An error response and a result response for the pending request 1.\<close>

theorem matched_response_settles_witness:
  "map_get (pendingRequests bridge_example) (Some (JNum (Finite 1))) = Some (Promise 1) \<and>
   resolveRequest env_example bridge_example
     (JObj [(js ''id'', JNum (Finite 1)),
            (js ''error'', JObj [(js ''code'', JNum (Finite (- 32000))), (js ''message'', JStr (js ''boom'')),
                                 (js ''data'', JBool True)])]) =
     Inr ([Reject (Promise 1) (Error (js ''boom''))], bridge_example\<lparr>pendingRequests := Map.empty\<rparr>) \<and>
   resolveRequest env_example bridge_example (JObj [(js ''id'', JNum (Finite 1)), (js ''result'', JBool True)]) =
     Inr ([Resolve (Promise 1) (Some (JBool True))], bridge_example\<lparr>pendingRequests := Map.empty\<rparr>)"
proof -
  let ?e = "JObj [(js ''code'', JNum (Finite (- 32000))), (js ''message'', JStr (js ''boom'')), (js ''data'', JBool True)]"
  let ?r1 = "[(js ''id'', JNum (Finite 1)), (js ''error'', ?e)]"
  let ?r2 = "[(js ''id'', JNum (Finite 1)), (js ''result'', JBool True)]"
  have g: "map_get (pendingRequests bridge_example) (Some (JNum (Finite 1))) = Some (Promise 1)"
    by (simp add: map_get_def key_of_def bridge_example_def)
  have i1: "map_of ?r1 (js ''id'') = Some (JNum (Finite 1))" and i2: "map_of ?r2 (js ''id'') = Some (JNum (Finite 1))"
    by (simp_all add: js_def)
  have d: "map_delete (pendingRequests bridge_example) (Some (JNum (Finite 1))) = Map.empty"
    by (simp add: map_delete_def key_of_def bridge_example_def)
  have e1: "map_of ?r1 (js ''error'') = Some ?e \<and> truthy (Some ?e) \<and>
      new_Error env_example (get_prop ?e (js ''message'')) = Inr (Error (js ''boom''))"
    by (simp add: new_Error_def js_def)
  have e2: "map_of ?r2 (js ''error'') = None" and v2: "map_of ?r2 (js ''result'') = Some (JBool True)"
    by (simp_all add: js_def)
  have a1: "map_get (pendingRequests bridge_example) (map_of ?r1 (js ''id'')) = Some (Promise 1)"
    unfolding i1 by (rule g)
  have a2: "map_get (pendingRequests bridge_example) (map_of ?r2 (js ''id'')) = Some (Promise 1)"
    unfolding i2 by (rule g)
  have 1: "resolveRequest env_example bridge_example (JObj ?r1) =
      Inr ([Reject (Promise 1) (Error (js ''boom''))], bridge_example\<lparr>pendingRequests := Map.empty\<rparr>)"
    using matched_response_settles [OF a1, where error = ?e and e = env_example and
        err = "Error (js ''boom'')"] e1
    unfolding i1 d by blast
  have 2: "resolveRequest env_example bridge_example (JObj ?r2) =
      Inr ([Resolve (Promise 1) (Some (JBool True))], bridge_example\<lparr>pendingRequests := Map.empty\<rparr>)"
    using matched_response_settles [OF a2, where e = env_example] e2
    unfolding i2 d v2 by blast
  from g 1 2 show ?thesis by simp
qed

subsection \<open>Starting the worker\<close>

text \<open>
  C6, as the specification states it: \<open>start\<close> does nothing when a worker is running, and
  fails when no candidate path exists. The bridge has no such check in \<open>start\<close>: with a
  worker attached it spawns another one; and it spawns the path given to the constructor
  without looking for the file.
\<close>

theorem start_idempotent_counterexample:
  "child bridge_example = Some (ChildProcess sidecar) \<and>
   start env_example bridge_example =
     (None, [ConsoleLog (js ''[OmniAgentPay] Spawning sidecar: '' @ sidecar), Spawn sidecar],
      bridge_example) \<and>
   sidecar \<notin> set (files env_example)"
proof -
  have "getBinaryPath env_example bridge_example = Inr sidecar"
    by (rule getBinaryPath_sidecar) (simp add: bridge_example_def)
  then have "start env_example bridge_example =
     (None, [ConsoleLog (js ''[OmniAgentPay] Spawning sidecar: '' @ sidecar), Spawn sidecar],
      bridge_example)"
    by (simp add: start_def spawn_example_sidecar bridge_example_def)
  then show ?thesis
    by (simp add: bridge_example_def env_example_def)
qed

text \<open>
  C6, amended: \<open>getBinaryPath\<close> returns the path given to the constructor when it is
  not empty, without a look at the file system; otherwise the development build path if
  that file exists, otherwise the installed package path if that file exists, otherwise
  it throws an error that names both paths. \<open>start\<close> logs the path found and calls
  \<open>spawn\<close>: unless \<open>spawn\<close> throws, it has spawned a worker and replaced the handle,
  whether or not a worker was attached; if \<open>spawn\<close> throws, \<open>start\<close> throws the same and
  the handle is as it was. It is \<open>send\<close> that calls \<open>start\<close> only when no worker is
  attached, and spawns nothing otherwise; when \<open>start\<close> throws there, \<open>send\<close> fails with
  that error before it registers a request, and the bridge is unchanged.
\<close>

theorem start_resolves_and_spawns:
  "(binaryPath b = Some p \<and> p \<noteq> [] \<longrightarrow> getBinaryPath e b = Inr p) \<and>
   (binaryPath b = None \<or> binaryPath b = Some [] \<longrightarrow>
      getBinaryPath e b =
        (if devPath e \<in> set (files e) then Inr (devPath e)
         else if prodPath e \<in> set (files e) then Inr (prodPath e)
         else Inl (Error (js ''Could not locate omniagentpay-server binary. Tries:'' @
                          [10] @ devPath e @ [10] @ prodPath e)))) \<and>
   (getBinaryPath e b = Inr q \<and> spawn_throws e q = None \<longrightarrow>
      start e b =
        (None, [ConsoleLog (js ''[OmniAgentPay] Spawning sidecar: '' @ q), Spawn q],
         b\<lparr>child := Some (ChildProcess q)\<rparr>)) \<and>
   (getBinaryPath e b = Inr q \<and> spawn_throws e q = Some thrown \<longrightarrow>
      start e b = (Some thrown, [ConsoleLog (js ''[OmniAgentPay] Spawning sidecar: '' @ q)], b)) \<and>
   (getBinaryPath e b = Inl err \<longrightarrow> start e b = (Some err, [], b)) \<and>
   (child b = None \<and> getBinaryPath e b = Inl err \<longrightarrow> send e b name args = (Inl err, [], b)) \<and>
   (child b = None \<and> getBinaryPath e b = Inr q \<and> spawn_throws e q = Some thrown \<longrightarrow>
      send e b name args =
        (Inl thrown, [ConsoleLog (js ''[OmniAgentPay] Spawning sidecar: '' @ q)], b)) \<and>
   (child b = Some c \<longrightarrow> spawned (fst (snd (send e b name args))) = [])"
proof -
  have 1: "binaryPath b = Some p \<and> p \<noteq> [] \<longrightarrow> getBinaryPath e b = Inr p"
    by (auto simp: getBinaryPath_def split: list.splits)
  have 2: "binaryPath b = None \<or> binaryPath b = Some [] \<longrightarrow>
      getBinaryPath e b =
        (if devPath e \<in> set (files e) then Inr (devPath e)
         else if prodPath e \<in> set (files e) then Inr (prodPath e)
         else Inl (Error (js ''Could not locate omniagentpay-server binary. Tries:'' @
                          [10] @ devPath e @ [10] @ prodPath e)))"
    by (auto simp: getBinaryPath_def)
  have 3: "getBinaryPath e b = Inr q \<and> spawn_throws e q = None \<longrightarrow>
      start e b =
        (None, [ConsoleLog (js ''[OmniAgentPay] Spawning sidecar: '' @ q), Spawn q],
         b\<lparr>child := Some (ChildProcess q)\<rparr>)"
    by (simp add: start_def)
  have 4: "getBinaryPath e b = Inr q \<and> spawn_throws e q = Some thrown \<longrightarrow>
      start e b = (Some thrown, [ConsoleLog (js ''[OmniAgentPay] Spawning sidecar: '' @ q)], b)"
    by (simp add: start_def)
  have 5: "getBinaryPath e b = Inl err \<longrightarrow> start e b = (Some err, [], b)"
    by (simp add: start_def)
  have 6: "child b = None \<and> getBinaryPath e b = Inl err \<longrightarrow> send e b name args = (Inl err, [], b)"
    by (simp add: send_not_found)
  have 7: "child b = None \<and> getBinaryPath e b = Inr q \<and> spawn_throws e q = Some thrown \<longrightarrow>
      send e b name args =
        (Inl thrown, [ConsoleLog (js ''[OmniAgentPay] Spawning sidecar: '' @ q)], b)"
    by (simp add: send_spawn_throws)
  have 8: "child b = Some c \<longrightarrow> spawned (fst (snd (send e b name args))) = []"
    by (simp add: send_attached split: sum.split)
  from 1 2 3 4 5 6 7 8 show ?thesis by blast
qed

text \<open>
  An explicit path, both files present, the packaged file alone, no file at all, a path
  with a NUL character, and a \<open>send\<close> with a worker attached.
\<close>

theorem start_resolves_and_spawns_witness:
  "start env_example (new_Bridge (Some sidecar)) =
     (None, [ConsoleLog (js ''[OmniAgentPay] Spawning sidecar: '' @ sidecar), Spawn sidecar],
      (new_Bridge (Some sidecar))\<lparr>child := Some (ChildProcess sidecar)\<rparr>) \<and>
   getBinaryPath (env_example\<lparr>files := [prodPath env_example, devPath env_example]\<rparr>) (new_Bridge None) =
     Inr (devPath env_example) \<and>
   getBinaryPath (env_example\<lparr>files := [prodPath env_example]\<rparr>) (new_Bridge None) =
     Inr (prodPath env_example) \<and>
   send env_example (new_Bridge None) (js ''health'') Undefined =
     (Inl (Error (js ''Could not locate omniagentpay-server binary. Tries:'' @
                  [10] @ devPath env_example @ [10] @ prodPath env_example)),
      [], new_Bridge None) \<and>
   start env_example (new_Bridge (Some [97, 0, 98])) =
     (Some TypeError, [ConsoleLog (js ''[OmniAgentPay] Spawning sidecar: '' @ [97, 0, 98])],
      new_Bridge (Some [97, 0, 98])) \<and>
   send env_example (new_Bridge (Some [97, 0, 98])) (js ''health'') Undefined =
     (Inl TypeError, [ConsoleLog (js ''[OmniAgentPay] Spawning sidecar: '' @ [97, 0, 98])],
      new_Bridge (Some [97, 0, 98])) \<and>
   spawned (fst (snd (send env_example bridge_example (js ''health'') Undefined))) = []"
proof -
  let ?err = "Error (js ''Could not locate omniagentpay-server binary. Tries:'' @
                  [10] @ devPath env_example @ [10] @ prodPath env_example)"
  let ?nul = "[97, 0, 98] :: jsstring"
  note t = start_resolves_and_spawns
  have b1: "binaryPath (new_Bridge (Some sidecar)) = Some sidecar \<and> sidecar \<noteq> []"
    by (simp add: new_Bridge_def sidecar_def js_def)
  have b2: "binaryPath (new_Bridge None) = None \<or> binaryPath (new_Bridge None) = Some []"
    by (simp add: new_Bridge_def)
  have b3: "binaryPath (new_Bridge (Some ?nul)) = Some ?nul \<and> ?nul \<noteq> []"
    by (simp add: new_Bridge_def)
  have c2: "child (new_Bridge None) = None" "child (new_Bridge (Some ?nul)) = None"
    by (simp_all add: new_Bridge_def)
  have c3: "child bridge_example = Some (ChildProcess sidecar)"
    by (simp add: bridge_example_def)
  have s3: "spawn_throws env_example ?nul = Some TypeError"
    by (simp add: env_example_def spawn_example_def)
  have g1: "getBinaryPath env_example (new_Bridge (Some sidecar)) = Inr sidecar"
    using t [where b = "new_Bridge (Some sidecar)" and p = sidecar and e = env_example] b1 by blast
  have 1: "start env_example (new_Bridge (Some sidecar)) =
     (None, [ConsoleLog (js ''[OmniAgentPay] Spawning sidecar: '' @ sidecar), Spawn sidecar],
      (new_Bridge (Some sidecar))\<lparr>child := Some (ChildProcess sidecar)\<rparr>)"
    using t [where b = "new_Bridge (Some sidecar)" and e = env_example and q = sidecar]
      g1 spawn_example_sidecar by blast
  have 2: "getBinaryPath (env_example\<lparr>files := [prodPath env_example, devPath env_example]\<rparr>) (new_Bridge None) =
     Inr (devPath env_example)"
    using t [where b = "new_Bridge None" and
        e = "env_example\<lparr>files := [prodPath env_example, devPath env_example]\<rparr>"] b2
    by simp
  have 3: "getBinaryPath (env_example\<lparr>files := [prodPath env_example]\<rparr>) (new_Bridge None) =
     Inr (prodPath env_example)"
    using t [where b = "new_Bridge None" and e = "env_example\<lparr>files := [prodPath env_example]\<rparr>"] b2
    by (simp add: env_example_def js_def)
  have g4: "getBinaryPath env_example (new_Bridge None) = Inl ?err"
    using t [where b = "new_Bridge None" and e = env_example] b2
    by (simp add: env_example_def)
  have 4: "send env_example (new_Bridge None) (js ''health'') Undefined = (Inl ?err, [], new_Bridge None)"
    using t [where b = "new_Bridge None" and e = env_example and err = ?err
        and name = "js ''health''" and args = Undefined] c2 g4 by blast
  have g5: "getBinaryPath env_example (new_Bridge (Some ?nul)) = Inr ?nul"
    using t [where b = "new_Bridge (Some ?nul)" and p = ?nul and e = env_example] b3 by blast
  have 5: "start env_example (new_Bridge (Some ?nul)) =
     (Some TypeError, [ConsoleLog (js ''[OmniAgentPay] Spawning sidecar: '' @ ?nul)],
      new_Bridge (Some ?nul))"
    using t [where b = "new_Bridge (Some ?nul)" and e = env_example and q = ?nul and
        thrown = TypeError] g5 s3 by blast
  have 6: "send env_example (new_Bridge (Some ?nul)) (js ''health'') Undefined =
     (Inl TypeError, [ConsoleLog (js ''[OmniAgentPay] Spawning sidecar: '' @ ?nul)],
      new_Bridge (Some ?nul))"
    using t [where b = "new_Bridge (Some ?nul)" and e = env_example and q = ?nul and
        thrown = TypeError and name = "js ''health''" and args = Undefined] c2 g5 s3 by blast
  have 7: "spawned (fst (snd (send env_example bridge_example (js ''health'') Undefined))) = []"
    using t [where b = bridge_example and e = env_example and name = "js ''health''"
        and args = Undefined and c = "ChildProcess sidecar"] c3 by blast
  from 1 2 3 4 5 6 7 show ?thesis by blast
qed

subsection \<open>The ids of a bridge\<close>

text \<open>
  Only \<open>send\<close> changes the counter, and only by one. Whatever else happens keeps the
  counter and adds no pending request.
\<close>

lemma allocated_append: "allocated (xs @ ys) = allocated xs @ allocated ys"
  by (induction xs rule: allocated.induct) simp_all

lemma map_delete_keeps: "map_delete m v k = Some p \<Longrightarrow> m k = Some p"
  by (auto simp: map_delete_def split: option.splits if_splits)

lemma resolveRequest_keeps:
  "resolveRequest e b r = Inr (out, b') \<Longrightarrow>
   requestId b' = requestId b \<and> child b' = child b \<and> binaryPath b' = binaryPath b \<and>
   (\<forall>k p. pendingRequests b' k = Some p \<longrightarrow> pendingRequests b k = Some p)"
  by (auto simp: resolveRequest_def Let_def dest: map_delete_keeps
      split: option.splits sum.splits if_splits)

lemma handleLine_keeps:
  "handleLine e b line = (out, b') \<Longrightarrow>
   requestId b' = requestId b \<and> child b' = child b \<and> binaryPath b' = binaryPath b \<and>
   (\<forall>k p. pendingRequests b' k = Some p \<longrightarrow> pendingRequests b k = Some p)"
  by (auto simp: handleLine_def try_block_def Let_def dest: resolveRequest_keeps
      split: option.splits sum.splits if_splits)

lemma handleLines_keeps:
  "handleLines e b lines = (out, b') \<Longrightarrow>
   requestId b' = requestId b \<and> child b' = child b \<and> binaryPath b' = binaryPath b \<and>
   (\<forall>k p. pendingRequests b' k = Some p \<longrightarrow> pendingRequests b k = Some p)"
proof (induction lines arbitrary: b out b')
  case Nil
  then show ?case by simp
next
  case (Cons l ls)
  obtain o1 b1 where h1: "handleLine e b l = (o1, b1)" by (cases "handleLine e b l")
  obtain o2 b2 where h2: "handleLines e b1 ls = (o2, b2)" by (cases "handleLines e b1 ls")
  from Cons.prems h1 h2 have "b' = b2" by simp
  with handleLine_keeps [OF h1] Cons.IH [OF h2] show ?case by simp
qed

lemma handleData_keeps:
  "handleData e b chunk = (out, b') \<Longrightarrow>
   requestId b' = requestId b \<and> child b' = child b \<and> binaryPath b' = binaryPath b \<and>
   (\<forall>k p. pendingRequests b' k = Some p \<longrightarrow> pendingRequests b k = Some p)"
  unfolding handleData_def Let_def by (drule handleLines_keeps) simp

text \<open>
  One step: the ids it allocates are those between the counter before and the counter
  after, and a request pending after it was pending before or has just been allocated.
\<close>

lemma step_allocates:
  assumes "step e b a = (rs, out, b')"
  shows "allocated rs = [Suc (requestId b) ..< Suc (requestId b')] \<and> requestId b \<le> requestId b' \<and>
         (\<forall>k p. pendingRequests b' k = Some p \<longrightarrow>
            pendingRequests b k = Some p \<or> (k \<in> set (allocated rs) \<and> p = Promise k))"
proof (cases a)
  case (Send name args)
  with assms show ?thesis
    by (auto simp: send_def start_def Let_def split: sum.splits option.splits if_splits prod.splits)
next
  case Start
  with assms show ?thesis by (auto simp: start_def split: sum.splits option.splits)
next
  case OnError
  with assms show ?thesis by auto
next
  case Stop
  with assms show ?thesis by (auto simp: stop_def)
next
  case (Data data)
  with assms obtain "handleData e b (toString data) = (out, b')" and "rs = []"
    by (auto simp: on_data_def split: prod.splits)
  with handleData_keeps [of e b "toString data" out b'] show ?thesis by simp
next
  case (Exit code)
  with assms show ?thesis by (auto simp: on_exit_def)
next
  case (ChildError err)
  with assms show ?thesis by (auto simp: on_error_def split: if_splits)
qed

lemma run_allocates:
  "run e b as = (rs, out, b') \<Longrightarrow>
   allocated rs = [Suc (requestId b) ..< Suc (requestId b')] \<and> requestId b \<le> requestId b' \<and>
   (\<forall>k p. pendingRequests b' k = Some p \<longrightarrow>
      pendingRequests b k = Some p \<or> (k \<in> set (allocated rs) \<and> p = Promise k))"
proof (induction as arbitrary: b rs out b')
  case Nil
  then show ?case by simp
next
  case (Cons a as)
  obtain r1 o1 b1 where h1: "step e b a = (r1, o1, b1)" by (cases "step e b a")
  obtain r2 o2 b2 where h2: "run e b1 as = (r2, o2, b2)" by (cases "run e b1 as")
  from Cons.prems h1 h2 have eq: "rs = r1 @ r2" "b' = b2" by simp_all
  note s = step_allocates [OF h1] and r = Cons.IH [OF h2]
  have "allocated rs = [Suc (requestId b) ..< Suc (requestId b1)] @ [Suc (requestId b1) ..< Suc (requestId b2)]"
    using s r eq by (simp add: allocated_append)
  also have "\<dots> = [Suc (requestId b) ..< Suc (requestId b2)]"
    using s r by (metis Suc_le_mono le_Suc_ex upt_add_eq_append)
  finally have 1: "allocated rs = [Suc (requestId b) ..< Suc (requestId b')]" using eq by simp
  have 2: "requestId b \<le> requestId b'" using s r eq by simp
  have 3: "pendingRequests b k = Some p \<or> (k \<in> set (allocated rs) \<and> p = Promise k)"
    if "pendingRequests b' k = Some p" for k p
  proof -
    from that eq r have "pendingRequests b1 k = Some p \<or> (k \<in> set (allocated r2) \<and> p = Promise k)"
      by blast
    then show ?thesis
    proof
      assume "pendingRequests b1 k = Some p"
      with s have "pendingRequests b k = Some p \<or> (k \<in> set (allocated r1) \<and> p = Promise k)"
        by blast
      then show ?thesis using eq by (auto simp: allocated_append)
    next
      assume "k \<in> set (allocated r2) \<and> p = Promise k"
      then show ?thesis using eq by (auto simp: allocated_append)
    qed
  qed
  from 1 2 3 show ?case by blast
qed

text \<open>
  C8: in any run of a bridge from its construction (calls of \<open>send\<close>, \<open>start\<close>, \<open>stop\<close> and
  \<open>on('error', listener)\<close>, chunks of output, exits and errors of workers, in any order,
  whatever each of them throws), the ids of the promises
  that the calls of \<open>send\<close> return are 1, 2, 3 and so on in the order of the calls: they
  start at 1, increase strictly and never repeat. Every pending entry is keyed by an id
  allocated in the run and holds the promise of that id, and no entry exists for the
  id that the next \<open>send\<close> takes, so an entry is never overwritten.
\<close>

theorem ids_strictly_increasing:
  assumes "run e (new_Bridge bp) as = (rs, out, b')"
  shows "allocated rs = [1 ..< Suc (requestId b')] \<and>
         sorted_wrt (<) (allocated rs) \<and> distinct (allocated rs) \<and>
         (\<forall>k p. pendingRequests b' k = Some p \<longrightarrow> k \<in> set (allocated rs) \<and> p = Promise k) \<and>
         pendingRequests b' (Suc (requestId b')) = None"
proof -
  have 0: "requestId (new_Bridge bp) = 0" "pendingRequests (new_Bridge bp) = Map.empty"
    by (simp_all add: new_Bridge_def)
  note r = run_allocates [OF assms]
  have 1: "allocated rs = [1 ..< Suc (requestId b')]"
    using r 0 by simp
  have 2: "\<forall>k p. pendingRequests b' k = Some p \<longrightarrow> k \<in> set (allocated rs) \<and> p = Promise k"
  proof (intro allI impI)
    fix k p assume "pendingRequests b' k = Some p"
    with r have "pendingRequests (new_Bridge bp) k = Some p \<or> (k \<in> set (allocated rs) \<and> p = Promise k)"
      by blast
    then show "k \<in> set (allocated rs) \<and> p = Promise k" by (simp add: 0)
  qed
  have 3: "pendingRequests b' (Suc (requestId b')) = None"
  proof (cases "pendingRequests b' (Suc (requestId b'))")
    case None
    then show ?thesis .
  next
    case (Some p)
    with 2 have "Suc (requestId b') \<in> set (allocated rs)" by blast
    with 1 show ?thesis by simp
  qed
  have 4: "sorted_wrt (<) (allocated rs)"
    unfolding 1 by (rule sorted_wrt_upt)
  have 5: "distinct (allocated rs)"
    unfolding 1 by (rule distinct_upt)
  from 1 2 3 4 5 show ?thesis by blast
qed


text \<open>
  Three requests, with a response to the first after the second, and an exit of the
  worker before the third.
\<close>

lemma toString_bare:
  \<open>toString response_bare_bytes = js ''{"jsonrpc":"2.0","id":1}'' @ [10]\<close>
  by (simp add: response_bare_bytes_def toString_def utf8_init_def utf8_lead_def utf16_units_def js_def)

lemma split_bare:
  \<open>split_nl (js ''{"jsonrpc":"2.0","id":1}'' @ [10]) = [js ''{"jsonrpc":"2.0","id":1}'', []]\<close>
  by (simp add: js_def)

lemma on_data_bare:
  assumes "buffer b = []" and "pendingRequests b 1 = Some p"
  shows "on_data env_example b response_bare_bytes =
           ([Resolve p None], b\<lparr>pendingRequests := (pendingRequests b)(1 := None)\<rparr>)"
proof -
  have n: \<open>js ''{"jsonrpc":"2.0","id":1}'' \<noteq> [] \<and> startsWith (js ''{"jsonrpc":"2.0","id":1}'') [123]\<close>
    by (simp add: js_def startsWith_def)
  have q: \<open>JSON_parse env_example (js ''{"jsonrpc":"2.0","id":1}'') = Some response_bare\<close>
    by (simp add: env_example_def parse_example_def js_def)
  have i: "get_prop response_bare (js ''id'') = Some (JNum (Finite 1))"
    "get_prop response_bare (js ''error'') = None" "get_prop response_bare (js ''result'') = None"
    "response_bare \<noteq> JNull"
    by (simp_all add: response_bare_def js_def)
  have r: "resolveRequest env_example b response_bare =
      Inr ([Resolve p None], b\<lparr>pendingRequests := (pendingRequests b)(1 := None)\<rparr>)"
    using assms(2) by (simp add: resolveRequest_def i map_get_def map_delete_def key_of_def)
  have "b\<lparr>buffer := []\<rparr> = b" using assms(1) by simp
  then show ?thesis
    unfolding on_data_def toString_bare handleData_def assms(1) append_Nil split_bare Let_def
    by (simp add: pop_or_empty_def handleLine_def trim_bare n try_block_def q r)
qed

theorem ids_strictly_increasing_witness:
  "allocated (fst (run env_example (new_Bridge (Some sidecar))
     [Send (js ''health'') Undefined, Send (js ''health'') Undefined, Data response_bare_bytes,
      Exit (Some 0), Send (js ''health'') Undefined])) = [1, 2, 3] \<and>
   dom (pendingRequests (snd (snd (run env_example (new_Bridge (Some sidecar))
     [Send (js ''health'') Undefined, Send (js ''health'') Undefined, Data response_bare_bytes,
      Exit (Some 0), Send (js ''health'') Undefined])))) = {2, 3}"
proof -
  let ?as = "[Send (js ''health'') Undefined, Send (js ''health'') Undefined, Data response_bare_bytes,
      Exit (Some 0), Send (js ''health'') Undefined]"
  let ?r = "run env_example (new_Bridge (Some sidecar)) ?as"
  have e: "requestId (snd (snd ?r)) = 3 \<and> dom (pendingRequests (snd (snd ?r))) = {2, 3}"
    by (simp add: send_attached send_launched getBinaryPath_sidecar spawn_example_sidecar
        new_Bridge_def on_data_bare on_exit_def) auto
  have "run env_example (new_Bridge (Some sidecar)) ?as = (fst ?r, fst (snd ?r), snd (snd ?r))"
    by simp
  from ids_strictly_increasing [OF this] have "allocated (fst ?r) = [1 ..< Suc (requestId (snd (snd ?r)))]"
    by blast
  with e show ?thesis
    by (simp add: upt_rec)
qed

subsection \<open>A \<open>send\<close> with no worker attached\<close>

text \<open>
  C9, as the specification states it: a \<open>send\<close> on a bridge with no worker attached
  spawns a worker, also on a bridge that was never started. It does not where no
  executable is found: on a new bridge with no path given and neither candidate file
  there, \<open>send\<close> fails and spawns nothing.
\<close>

theorem send_spawns_counterexample:
  "child (new_Bridge None) = None \<and>
   fst (send env_example (new_Bridge None) (js ''health'') Undefined) =
     Inl (Error (js ''Could not locate omniagentpay-server binary. Tries:'' @
                 [10] @ devPath env_example @ [10] @ prodPath env_example)) \<and>
   spawned (fst (snd (send env_example (new_Bridge None) (js ''health'') Undefined))) = []"
proof -
  have c: "child (new_Bridge None) = None"
    by (simp add: new_Bridge_def)
  have "getBinaryPath env_example (new_Bridge None) =
     Inl (Error (js ''Could not locate omniagentpay-server binary. Tries:'' @
                 [10] @ devPath env_example @ [10] @ prodPath env_example))"
    by (simp add: getBinaryPath_def new_Bridge_def env_example_def)
  from send_not_found [OF c this] c show ?thesis by simp
qed

text \<open>
  C9, amended: a \<open>send\<close> on a bridge with no worker attached (a new bridge, or one whose
  worker has exited or has been stopped) calls \<open>start\<close>. Where \<open>getBinaryPath\<close> finds an
  executable and \<open>spawn\<close> does not throw, it spawns that executable and takes the next id
  after the counter as it was: the counter is not reset, and the pending requests are
  those of before with the new one added. Where no executable is found, or \<open>spawn\<close>
  throws, nothing is spawned, \<open>send\<close> fails, and the bridge is unchanged, its counter and
  its pending requests with it. The \<open>exit\<close> listener and \<open>stop\<close> release the worker and
  keep the counter and the pending requests.
\<close>

theorem send_restarts_worker:
  assumes "child b = None"
  shows "(getBinaryPath e b = Inr p \<and> spawn_throws e p = None \<longrightarrow>
            fst (send e b name args) = Inr (Promise (requestId b + 1)) \<and>
            spawned (fst (snd (send e b name args))) = [p] \<and>
            snd (snd (send e b name args)) =
              b\<lparr>child := Some (ChildProcess p), requestId := requestId b + 1,
                 pendingRequests := (pendingRequests b)(requestId b + 1 \<mapsto> Promise (requestId b + 1))\<rparr>) \<and>
         (getBinaryPath e b = Inl err \<longrightarrow> send e b name args = (Inl err, [], b)) \<and>
         (getBinaryPath e b = Inr p \<and> spawn_throws e p = Some thrown \<longrightarrow>
            send e b name args =
              (Inl thrown, [ConsoleLog (js ''[OmniAgentPay] Spawning sidecar: '' @ p)], b)) \<and>
         child (new_Bridge bp) = None \<and>
         child (snd (on_exit b' code)) = None \<and> requestId (snd (on_exit b' code)) = requestId b' \<and>
         pendingRequests (snd (on_exit b' code)) = pendingRequests b' \<and>
         child (snd (stop b')) = None \<and> requestId (snd (stop b')) = requestId b' \<and>
         pendingRequests (snd (stop b')) = pendingRequests b'"
proof -
  have 1: "fst (send e b name args) = Inr (Promise (requestId b + 1)) \<and>
      spawned (fst (snd (send e b name args))) = [p] \<and>
      snd (snd (send e b name args)) =
        b\<lparr>child := Some (ChildProcess p), requestId := requestId b + 1,
           pendingRequests := (pendingRequests b)(requestId b + 1 \<mapsto> Promise (requestId b + 1))\<rparr>"
    if "getBinaryPath e b = Inr p" "spawn_throws e p = None"
    unfolding send_launched [OF assms that] by (simp split: sum.split)
  have 2: "send e b name args = (Inl err, [], b)" if "getBinaryPath e b = Inl err"
    using assms that by (rule send_not_found)
  have 3: "send e b name args =
      (Inl thrown, [ConsoleLog (js ''[OmniAgentPay] Spawning sidecar: '' @ p)], b)"
    if "getBinaryPath e b = Inr p" "spawn_throws e p = Some thrown"
    using assms that by (rule send_spawn_throws)
  have 4: "child (new_Bridge bp) = None \<and>
      child (snd (on_exit b' code)) = None \<and> requestId (snd (on_exit b' code)) = requestId b' \<and>
      pendingRequests (snd (on_exit b' code)) = pendingRequests b' \<and>
      child (snd (stop b')) = None \<and> requestId (snd (stop b')) = requestId b' \<and>
      pendingRequests (snd (stop b')) = pendingRequests b'"
    by (simp add: on_exit_def stop_def new_Bridge_def)
  from 1 2 3 4 show ?thesis by blast
qed

text \<open>
  The worker exits with request 1 pending; the next \<open>send\<close> spawns a worker, and takes
  id 2, and request 1 is still pending. A new bridge that finds no executable, and one
  whose path makes \<open>spawn\<close> throw, are unchanged by a \<open>send\<close>.
\<close>

theorem send_restarts_worker_witness:
  "child (snd (on_exit bridge_example (Some 1))) = None \<and>
   fst (send env_example (snd (on_exit bridge_example (Some 1))) (js ''health'') Undefined) =
     Inr (Promise 2) \<and>
   spawned (fst (snd (send env_example (snd (on_exit bridge_example (Some 1))) (js ''health'') Undefined))) =
     [sidecar] \<and>
   pendingRequests
     (snd (snd (send env_example (snd (on_exit bridge_example (Some 1))) (js ''health'') Undefined))) 1 =
     Some (Promise 1) \<and>
   pendingRequests
     (snd (snd (send env_example (snd (on_exit bridge_example (Some 1))) (js ''health'') Undefined))) 2 =
     Some (Promise 2) \<and>
   child (new_Bridge None) = None \<and>
   snd (snd (send env_example (new_Bridge None) (js ''health'') Undefined)) = new_Bridge None \<and>
   snd (snd (send env_example (new_Bridge (Some [97, 0, 98])) (js ''health'') Undefined)) =
     new_Bridge (Some [97, 0, 98])"
proof -
  let ?b = "snd (on_exit bridge_example (Some 1))"
  let ?nul = "[97, 0, 98] :: jsstring"
  let ?err = "Error (js ''Could not locate omniagentpay-server binary. Tries:'' @
                  [10] @ devPath env_example @ [10] @ prodPath env_example)"
  note t = send_restarts_worker
  have c: "child ?b = None"
    by (simp add: on_exit_def)
  have g: "getBinaryPath env_example ?b = Inr sidecar \<and> spawn_throws env_example sidecar = None"
    by (simp add: getBinaryPath_sidecar on_exit_def bridge_example_def spawn_example_sidecar)
  have r: "requestId ?b + 1 = 2" "pendingRequests ?b 1 = Some (Promise 1)"
    by (simp_all add: on_exit_def bridge_example_def)
  have c': "child (new_Bridge None) = None" and c'': "child (new_Bridge (Some ?nul)) = None"
    by (simp_all add: new_Bridge_def)
  have g': "getBinaryPath env_example (new_Bridge None) = Inl ?err"
    by (simp add: getBinaryPath_def new_Bridge_def env_example_def)
  have g'': "getBinaryPath env_example (new_Bridge (Some ?nul)) = Inr ?nul \<and>
      spawn_throws env_example ?nul = Some TypeError"
    by (simp add: getBinaryPath_def new_Bridge_def env_example_def spawn_example_def)
  from t [OF c, where e = env_example and p = sidecar and name = "js ''health''"
      and args = Undefined] g
  have 1: "fst (send env_example ?b (js ''health'') Undefined) = Inr (Promise (requestId ?b + 1)) \<and>
      spawned (fst (snd (send env_example ?b (js ''health'') Undefined))) = [sidecar] \<and>
      snd (snd (send env_example ?b (js ''health'') Undefined)) =
        ?b\<lparr>child := Some (ChildProcess sidecar), requestId := requestId ?b + 1,
           pendingRequests := (pendingRequests ?b)(requestId ?b + 1 \<mapsto> Promise (requestId ?b + 1))\<rparr>"
    by blast
  from t [OF c', where e = env_example and err = ?err and name = "js ''health''"
      and args = Undefined] g'
  have 2: "send env_example (new_Bridge None) (js ''health'') Undefined = (Inl ?err, [], new_Bridge None)"
    by blast
  from t [OF c'', where e = env_example and p = ?nul and thrown = TypeError
      and name = "js ''health''" and args = Undefined] g''
  have 3: "send env_example (new_Bridge (Some ?nul)) (js ''health'') Undefined =
      (Inl TypeError, [ConsoleLog (js ''[OmniAgentPay] Spawning sidecar: '' @ ?nul)],
       new_Bridge (Some ?nul))"
    by blast
  from 1 show ?thesis
    unfolding r 2 3 using c c' r(2) by simp
qed

end
